theory Spec2Isabelle
  imports Complex_Main
begin

section \<open>Exceptions\<close>

text \<open>
  The exception classes of \<^verbatim>\<open>saliweb/backend/__init__.py\<close> and the Python built-in
  ones the modelled code can raise. An exception object carries its message and,
  once \<^verbatim>\<open>Job._fail\<close> has annotated it, the attribute \<^verbatim>\<open>original_error\<close>.
\<close>

datatype exn_class =
    InvalidStateError | RunnerError | StateFileError | ConfigError | SanityError
  | ValueError | KeyError | TypeError | AttributeError | OSError | IOError
  | DatabaseError

record exn =
  cls :: exn_class
  message :: string
  original_error :: "string option"

definition raise_exn :: "exn_class \<Rightarrow> string \<Rightarrow> exn" where
  "raise_exn c m = \<lparr>cls = c, message = m, original_error = None\<rparr>"

section \<open>\<^verbatim>\<open>_JobState\<close>: the state machine\<close>

text \<open>
  States are the strings the source uses. \<^verbatim>\<open>__valid_transitions\<close> is the list of
  two-element lists of the class, in the order of the source.
\<close>

definition valid_states :: "string list" where
  "valid_states = [''INCOMING'', ''PREPROCESSING'', ''RUNNING'',
                   ''POSTPROCESSING'', ''COMPLETED'', ''FAILED'',
                   ''EXPIRED'', ''ARCHIVED'']"

definition valid_transitions :: "string list list" where
  "valid_transitions = [[''INCOMING'', ''PREPROCESSING''],
                        [''PREPROCESSING'', ''RUNNING''],
                        [''PREPROCESSING'', ''COMPLETED''],
                        [''RUNNING'', ''POSTPROCESSING''],
                        [''POSTPROCESSING'', ''COMPLETED''],
                        [''POSTPROCESSING'', ''RUNNING''],
                        [''COMPLETED'', ''ARCHIVED''],
                        [''ARCHIVED'', ''EXPIRED''],
                        [''FAILED'', ''INCOMING'']]"

text \<open>
  \<^verbatim>\<open>_JobState.transition(newstate)\<close>. The object holds one string; the function
  returns the exception raised, if any, and the string held afterwards.
\<close>

definition transition :: "string \<Rightarrow> string \<Rightarrow> exn option \<times> string" where
  "transition st newstate =
     (let tran = [st, newstate] in
      if newstate = ''FAILED'' \<or> tran \<in> set valid_transitions
      then (None, newstate)
      else (Some (raise_exn InvalidStateError
                    (''Cannot transition from '' @ st @ '' to '' @ newstate)), st))"

text \<open>
  The legal-transition table as the specification prints it (section 3), one
  row per introduction rule; the row "any \<open>\<rightarrow>\<close> FAILED" is kept apart, as the
  claim does.
\<close>

inductive legal_table :: "string \<Rightarrow> string \<Rightarrow> bool" where
  "legal_table ''INCOMING'' ''PREPROCESSING''"
| "legal_table ''PREPROCESSING'' ''RUNNING''"
| "legal_table ''PREPROCESSING'' ''COMPLETED''"
| "legal_table ''RUNNING'' ''POSTPROCESSING''"
| "legal_table ''POSTPROCESSING'' ''COMPLETED''"
| "legal_table ''POSTPROCESSING'' ''RUNNING''"
| "legal_table ''COMPLETED'' ''ARCHIVED''"
| "legal_table ''ARCHIVED'' ''EXPIRED''"
| "legal_table ''FAILED'' ''INCOMING''"

code_pred legal_table .

section \<open>Strings and paths\<close>

text \<open>
  The string operations of Python the modelled code calls: \<^verbatim>\<open>str.split(sep)\<close>,
  \<^verbatim>\<open>str.rstrip(chars)\<close>, \<^verbatim>\<open>str.upper()\<close> (ASCII), \<^verbatim>\<open>str.endswith\<close>,
  \<^verbatim>\<open>sep.join\<close>, and \<^verbatim>\<open>'%s' % x\<close> for a value that may be \<^verbatim>\<open>None\<close>.
\<close>

fun split_on :: "char \<Rightarrow> string \<Rightarrow> string list" where
  "split_on c [] = [[]]"
| "split_on c (x # xs) =
     (if x = c then [] # split_on c xs
      else (case split_on c xs of
              [] \<Rightarrow> [[x]]
            | y # ys \<Rightarrow> (x # y) # ys))"

definition rstrip :: "string \<Rightarrow> string \<Rightarrow> string" where
  "rstrip chars s = rev (dropWhile (\<lambda>c. c \<in> set chars) (rev s))"

definition upper_char :: "char \<Rightarrow> char" where
  "upper_char c =
     (case map_of (zip ''abcdefghijklmnopqrstuvwxyz''
                       ''ABCDEFGHIJKLMNOPQRSTUVWXYZ'') c of
        Some u \<Rightarrow> u
      | None \<Rightarrow> c)"

definition upper :: "string \<Rightarrow> string" where
  "upper s = map upper_char s"

definition endswith :: "string \<Rightarrow> char \<Rightarrow> bool" where
  "endswith s c = (s \<noteq> [] \<and> last s = c)"

fun join_with :: "string \<Rightarrow> string list \<Rightarrow> string" where
  "join_with sep [] = []"
| "join_with sep [x] = x"
| "join_with sep (x # y # ys) = x @ sep @ join_with sep (y # ys)"

definition str_opt :: "string option \<Rightarrow> string" where
  "str_opt v = (case v of None \<Rightarrow> ''None'' | Some s \<Rightarrow> s)"

text \<open>
  \<^verbatim>\<open>os.path.join\<close> (two arguments) and \<^verbatim>\<open>os.path.normpath\<close> are functions of Python's
  standard library (\<^verbatim>\<open>posixpath\<close>), not of the repository; they are written out
  here after the library so that paths can be computed. No theorem below depends
  on what they compute.
\<close>

definition path_join :: "string \<Rightarrow> string \<Rightarrow> string" where
  "path_join a b =
     (if b \<noteq> [] \<and> hd b = CHR ''/'' then b
      else if a = [] \<or> last a = CHR ''/'' then a @ b
      else a @ ''/'' @ b)"

definition norm_step :: "nat \<Rightarrow> string list \<Rightarrow> string \<Rightarrow> string list" where
  "norm_step initial_slashes new_comps cmp =
     (if cmp = [] \<or> cmp = ''.'' then new_comps
      else if cmp \<noteq> ''..'' \<or> (initial_slashes = 0 \<and> new_comps = [])
                \<or> (new_comps \<noteq> [] \<and> last new_comps = ''..'')
           then new_comps @ [cmp]
      else if new_comps \<noteq> [] then butlast new_comps
      else new_comps)"

definition normpath :: "string \<Rightarrow> string" where
  "normpath path =
     (if path = [] then ''.''
      else
        let initial_slashes =
              (if take 2 path = ''//'' \<and> take 3 path \<noteq> ''///'' then 2
               else if take 1 path = ''/'' then 1 else (0::nat));
            comps = foldl (norm_step initial_slashes) [] (split_on CHR ''/'' path);
            p = replicate initial_slashes CHR ''/'' @ join_with ''/'' comps
        in if p = [] then ''.'' else p)"

section \<open>Configuration\<close>

text \<open>
  A \<^verbatim>\<open>datetime.timedelta\<close> is modelled by its length in seconds, a rational
  number; \<^verbatim>\<open>datetime.datetime\<close> values and \<^verbatim>\<open>time.time()\<close> readings are rational
  seconds as well. Floating-point rounding and the range limits of the Python
  types are not modelled.
\<close>

type_synonym timedelta = rat
type_synonym datetime = rat

definition timedelta_seconds :: "rat \<Rightarrow> timedelta" where
  "timedelta_seconds x = x"

definition timedelta_days :: "rat \<Rightarrow> timedelta" where
  "timedelta_days x = x * 86400"

record oldjobs =
  archive :: "timedelta option"
  expire :: "timedelta option"

record Config =
  directories :: "string \<rightharpoonup> string"
  oldjobs_of :: oldjobs
  admin_email :: string
  service_name :: string
  state_file :: string

text \<open>
  \<^verbatim>\<open>Config._get_time_delta\<close>, applied to the raw option text. The built-in
  \<^verbatim>\<open>float\<close> is the parameter \<open>pyfloat\<close>: \<open>None\<close> stands for its \<^verbatim>\<open>ValueError\<close>,
  which the \<^verbatim>\<open>except\<close> clause swallows before the final \<^verbatim>\<open>raise\<close>.
\<close>

definition time_delta_error :: "string \<Rightarrow> exn" where
  "time_delta_error raw =
     raise_exn ValueError
       (''Time deltas must be 'NEVER' or numbers followed '' @
        ''by h, d, m or y (for hours, days, months, or '' @
        ''years), e.g. 24h, 30d, 3m, 1y; got '' @ raw)"

definition get_time_delta ::
  "(string \<Rightarrow> rat option) \<Rightarrow> string \<Rightarrow> exn + timedelta option" where
  "get_time_delta pyfloat raw =
     (if endswith raw CHR ''h'' then
        (case pyfloat (butlast raw) of
           Some x \<Rightarrow> Inr (Some (timedelta_seconds (x * 60 * 60)))
         | None \<Rightarrow> Inl (time_delta_error raw))
      else if endswith raw CHR ''d'' then
        (case pyfloat (butlast raw) of
           Some x \<Rightarrow> Inr (Some (timedelta_days x))
         | None \<Rightarrow> Inl (time_delta_error raw))
      else if endswith raw CHR ''m'' then
        (case pyfloat (butlast raw) of
           Some x \<Rightarrow> Inr (Some (timedelta_days (x * 30)))
         | None \<Rightarrow> Inl (time_delta_error raw))
      else if endswith raw CHR ''y'' then
        (case pyfloat (butlast raw) of
           Some x \<Rightarrow> Inr (Some (timedelta_days (x * 365)))
         | None \<Rightarrow> Inl (time_delta_error raw))
      else if upper raw = ''NEVER'' then Inr None
      else Inl (time_delta_error raw))"

text \<open>
  \<^verbatim>\<open>Config._populate_oldjobs\<close>, applied to the raw texts of the options
  \<^verbatim>\<open>archive\<close> and \<^verbatim>\<open>expire\<close> of section \<^verbatim>\<open>oldjobs\<close>.
\<close>

definition populate_oldjobs ::
  "(string \<Rightarrow> rat option) \<Rightarrow> string \<Rightarrow> string \<Rightarrow> exn + oldjobs" where
  "populate_oldjobs pyfloat raw_archive raw_expire =
     (case get_time_delta pyfloat raw_archive of
        Inl e \<Rightarrow> Inl e
      | Inr a \<Rightarrow>
         (case get_time_delta pyfloat raw_expire of
            Inl e \<Rightarrow> Inl e
          | Inr x \<Rightarrow>
             if x \<noteq> None \<and> (a = None \<or> the a > the x)
             then Inl (raise_exn ConfigError
                         (''archive time ('' @ raw_archive @
                          '') cannot be greater than expire time ('' @
                          raw_expire @ '')''))
             else Inr \<lparr>archive = a, expire = x\<rparr>))"

text \<open>
  A reader of plain decimal literals (digits, optionally a point and more
  digits), used to instantiate \<open>pyfloat\<close> on concrete inputs.
\<close>

definition digit_val :: "char \<Rightarrow> nat option" where
  "digit_val c =
     (let n = (of_char c :: nat) in
      if 48 \<le> n \<and> n \<le> 57 then Some (n - 48) else None)"

fun digits_val :: "nat \<Rightarrow> string \<Rightarrow> nat option" where
  "digits_val acc [] = Some acc"
| "digits_val acc (c # cs) =
     (case digit_val c of
        None \<Rightarrow> None
      | Some d \<Rightarrow> digits_val (10 * acc + d) cs)"

definition decimal :: "string \<Rightarrow> rat option" where
  "decimal s =
     (case split_on CHR ''.'' s of
        [ip] \<Rightarrow>
          (if ip = [] then None
           else map_option (\<lambda>n. of_nat n) (digits_val 0 ip))
      | [ip, fp] \<Rightarrow>
          (if ip = [] \<and> fp = [] then None
           else (case (digits_val 0 ip, digits_val 0 fp) of
                   (Some i, Some f) \<Rightarrow>
                     Some (of_nat i + of_nat f / of_nat (10 ^ length fp))
                 | _ \<Rightarrow> None))
      | _ \<Rightarrow> None)"

text \<open>
  The format the specification gives for the two options (section 6): a number
  followed by one of the unit letters, or the word NEVER (the code compares
  \<^verbatim>\<open>raw.upper()\<close>, so in any letter case).
\<close>

definition time_delta_format :: "(string \<Rightarrow> rat option) \<Rightarrow> string \<Rightarrow> bool" where
  "time_delta_format pyfloat raw =
     ((raw \<noteq> [] \<and> last raw \<in> set ''hdmy'' \<and> pyfloat (butlast raw) \<noteq> None)
      \<or> upper raw = ''NEVER'')"

text \<open>
  The constraint of the specification, \<open>archive \<le> expire\<close> with NEVER (\<open>None\<close>)
  read as \<open>+\<infinity>\<close>.
\<close>

definition archive_le_expire :: "timedelta option \<Rightarrow> timedelta option \<Rightarrow> bool" where
  "archive_le_expire a x =
     (case x of
        None \<Rightarrow> True
      | Some xv \<Rightarrow> (case a of None \<Rightarrow> False | Some av \<Rightarrow> av \<le> xv))"

section \<open>\<^verbatim>\<open>Job\<close>: has the running job completed?\<close>

text \<open>
  \<^verbatim>\<open>Job._job_state_file_done\<close>, applied to what opening and reading the job-state
  file gave: \<open>Some\<close> of its text, or \<open>None\<close> for the \<^verbatim>\<open>IOError\<close> the method catches.
\<close>

definition job_state_file_done :: "string option \<Rightarrow> bool" where
  "job_state_file_done contents =
     (case contents of
        None \<Rightarrow> False
      | Some text \<Rightarrow> rstrip [CHR 0x0D, CHR 0x0A] text = ''DONE'')"

text \<open>
  \<^verbatim>\<open>Job._runner_done\<close>. The registry \<^verbatim>\<open>Job._runners\<close> maps a runner name to the
  \<^verbatim>\<open>_check_completed\<close> of its class, which answers \<open>Some True\<close>, \<open>Some False\<close> or
  \<open>None\<close>. The failures of the method are those of Python: \<^verbatim>\<open>None.split\<close>, the
  unpacking of a list that has not two elements, a name missing in the registry.
\<close>

definition runner_done ::
  "(string \<rightharpoonup> (string \<Rightarrow> bool option)) \<Rightarrow> string option \<Rightarrow> exn + bool option" where
  "runner_done runners rid =
     (case rid of
        None \<Rightarrow> Inl (raise_exn AttributeError
                       '''NoneType' object has no attribute 'split' '')
      | Some r \<Rightarrow>
         (case split_on CHR '':'' r of
            [runner_name, jobid] \<Rightarrow>
              (case runners runner_name of
                 None \<Rightarrow> Inl (raise_exn KeyError runner_name)
               | Some check_completed \<Rightarrow> Inr (check_completed jobid))
          | [_] \<Rightarrow> Inl (raise_exn ValueError ''need more than 1 value to unpack'')
          | _ \<Rightarrow> Inl (raise_exn ValueError ''too many values to unpack'')))"

definition state_file_wait_time :: rat where
  "state_file_wait_time = 5"

text \<open>
  The loop \<^verbatim>\<open>for tries in range(5)\<close> of \<^verbatim>\<open>Job._has_completed\<close>. \<open>reads i\<close> is what
  the \<open>i\<close>-th reading of the job-state file gives (the file may change between
  readings); the loop returns whether a reading found DONE, the number of
  readings made so far and the seconds slept so far.
\<close>

fun retry_state_file ::
  "nat \<Rightarrow> (nat \<Rightarrow> string option) \<Rightarrow> nat \<Rightarrow> rat \<Rightarrow> bool \<times> nat \<times> rat" where
  "retry_state_file 0 reads i slept = (False, i, slept)"
| "retry_state_file (Suc tries) reads i slept =
     (if job_state_file_done (reads i) then (True, Suc i, slept)
      else retry_state_file tries reads (Suc i) (slept + state_file_wait_time))"

definition runner_error_message :: "string option \<Rightarrow> string option \<Rightarrow> string" where
  "runner_error_message rid dir =
     ''Runner claims job '' @ str_opt rid @ '' is complete, but '' @
     ''job-state file in job directory ('' @ str_opt dir @ '') claims it '' @
     ''is not. This usually means the underlying batch system '' @
     ''(e.g. SGE) job failed - e.g. a node went down.''"

text \<open>
  \<^verbatim>\<open>Job._has_completed\<close>: the value returned or the exception raised, with the
  number of readings of the job-state file and the seconds slept.
\<close>

definition has_completed ::
  "(string \<rightharpoonup> (string \<Rightarrow> bool option)) \<Rightarrow> string option \<Rightarrow> string option \<Rightarrow>
   (nat \<Rightarrow> string option) \<Rightarrow> (exn + bool) \<times> nat \<times> rat" where
  "has_completed runners rid dir reads =
     (case runner_done runners rid of
        Inl e \<Rightarrow> (Inl e, 0, 0)
      | Inr batch_done \<Rightarrow>
         (let state_file_done = job_state_file_done (reads 0) in
          if state_file_done \<and> batch_done \<noteq> Some False then (Inr True, 1, 0)
          else if batch_done = Some True \<and> \<not> state_file_done then
            (case retry_state_file 5 reads 1 0 of
               (True, n, slept) \<Rightarrow> (Inr True, n, slept)
             | (False, n, slept) \<Rightarrow>
                 (Inl (raise_exn RunnerError (runner_error_message rid dir)),
                  n, slept))
          else (Inr False, 1, 0)))"

text \<open>
  The completion rule of the specification (table of section 4.5.2), from the
  first reading of the job-state file and the runner's answer. The table has
  no row for a file that reads DONE with a runner that reports the job as
  running.
\<close>

datatype verdict = Complete | Not_yet | Retry_then_fail

definition completion_table :: "bool \<Rightarrow> bool option \<Rightarrow> verdict option" where
  "completion_table file_done runner =
     (if file_done \<and> (runner = Some True \<or> runner = None) then Some Complete
      else if \<not> file_done \<and> (runner = Some False \<or> runner = None) then Some Not_yet
      else if \<not> file_done \<and> runner = Some True then Some Retry_then_fail
      else None)"

section \<open>Job rows, the database and the world outside the process\<close>

text \<open>
  The columns of the job table that \<^verbatim>\<open>Database.__init__\<close> declares, without
  \<^verbatim>\<open>state\<close>: the dictionary held by a \<^verbatim>\<open>_JobMetadata\<close>. SQL \<^verbatim>\<open>NULL\<close> and Python
  \<^verbatim>\<open>None\<close> are \<open>None\<close>; \<^verbatim>\<open>name\<close> and \<^verbatim>\<open>url\<close> and \<^verbatim>\<open>submit_time\<close> are declared
  \<^verbatim>\<open>NOT NULL\<close>.
\<close>

record columns =
  name :: string
  user :: "string option"
  passwd :: "string option"
  contact_email :: "string option"
  directory :: "string option"
  url :: string
  submit_time :: datetime
  preprocess_time :: "datetime option"
  run_time :: "datetime option"
  postprocess_time :: "datetime option"
  end_time :: "datetime option"
  archive_time :: "datetime option"
  expire_time :: "datetime option"
  runner_id :: "string option"
  failure :: "string option"

record JobMetadata =
  dict :: columns
  needs_sync :: bool

text \<open>
  \<^verbatim>\<open>_JobMetadata.__setitem__\<close> for a key of the dictionary, given by its
  selector and its update function: the flag is raised and the value stored
  only when the value changes.
\<close>

definition setitem ::
  "(columns \<Rightarrow> 'a) \<Rightarrow> (('a \<Rightarrow> 'a) \<Rightarrow> columns \<Rightarrow> columns) \<Rightarrow> 'a \<Rightarrow>
   JobMetadata \<Rightarrow> JobMetadata" where
  "setitem sel upd v m =
     (if sel (dict m) \<noteq> v
      then m\<lparr>needs_sync := True, dict := upd (\<lambda>_. v) (dict m)\<rparr>
      else m)"

definition mark_synced :: "JobMetadata \<Rightarrow> JobMetadata" where
  "mark_synced m = m\<lparr>needs_sync := False\<rparr>"

text \<open>A \<^verbatim>\<open>Job\<close> object: its metadata and the string held by its \<^verbatim>\<open>_JobState\<close>.\<close>

record Job =
  metadata :: JobMetadata
  jstate :: string

text \<open>A row of the job table: the columns and the \<^verbatim>\<open>state\<close> column.\<close>

record row =
  cols :: columns
  state :: string

record email =
  rcpt :: "string list"
  sender :: string
  subject :: string
  body :: string

text \<open>
  What lies outside the Python process. \<open>fs\<close> maps the path of each directory
  on disk to its content; \<open>db_table\<close> is the job table and \<open>db_up\<close> tells whether
  the database executes a statement or raises; \<open>mailer_up\<close> tells whether the
  sendmail binary can be run, and \<open>outbox\<close> collects the messages handed to it;
  \<open>clock\<close> is the sequence of readings that successive calls of \<^verbatim>\<open>time.time()\<close>
  and \<^verbatim>\<open>datetime.utcnow()\<close> return, \<open>ticks\<close> the number of readings made;
  \<open>state_file_text\<close> is the content of the daemon's state file; \<open>cwd\<close> the
  working directory; \<open>traceback\<close> is what \<^verbatim>\<open>traceback.format_exc()\<close> returns
  while the given exception is being handled.
\<close>

record world =
  fs :: "string \<rightharpoonup> string list"
  db_table :: "row list"
  db_up :: bool
  mailer_up :: bool
  outbox :: "email list"
  clock :: "nat \<Rightarrow> rat"
  ticks :: nat
  state_file_text :: "string option"
  cwd :: string
  traceback :: "exn \<Rightarrow> string option"

definition time_time :: "world \<Rightarrow> rat \<times> world" where
  "time_time w = (clock w (ticks w), w\<lparr>ticks := Suc (ticks w)\<rparr>)"

section \<open>\<^verbatim>\<open>_PeriodicAction\<close>\<close>

text \<open>
  The callback \<^verbatim>\<open>meth\<close> acts on the world and may raise. \<^verbatim>\<open>try_action\<close> takes
  the argument \<^verbatim>\<open>timenow\<close> as the source does, and like the source compares
  a fresh reading of \<^verbatim>\<open>time.time()\<close>.
\<close>

record PeriodicAction =
  interval :: rat
  meth :: "world \<Rightarrow> exn option \<times> world"
  last_time :: rat

definition PeriodicAction_init ::
  "rat \<Rightarrow> (world \<Rightarrow> exn option \<times> world) \<Rightarrow> PeriodicAction" where
  "PeriodicAction_init i m = \<lparr>interval = i, meth = m, last_time = 0\<rparr>"

definition get_time_to_next :: "PeriodicAction \<Rightarrow> rat \<Rightarrow> rat" where
  "get_time_to_next pa timenow = max 0 (last_time pa + interval pa - timenow)"

definition reset :: "PeriodicAction \<Rightarrow> world \<Rightarrow> PeriodicAction \<times> world" where
  "reset pa w = (case time_time w of (t, w') \<Rightarrow> (pa\<lparr>last_time := t\<rparr>, w'))"

definition try_action ::
  "PeriodicAction \<Rightarrow> rat \<Rightarrow> world \<Rightarrow> exn option \<times> PeriodicAction \<times> world" where
  "try_action pa timenow w =
     (case time_time w of
        (t, w1) \<Rightarrow>
          if t > last_time pa + interval pa then
            (case meth pa w1 of
               (Some e, w2) \<Rightarrow> (Some e, pa, w2)
             | (None, w2) \<Rightarrow>
                 (case reset pa w2 of (pa', w3) \<Rightarrow> (None, pa', w3)))
          else (None, pa, w1))"

text \<open>
  A world and a callback for concrete runs: the clock reads 100, 101, ...; the
  callback hands one message to the mailer, so that a run shows whether it was
  called.
\<close>

definition example_world :: world where
  "example_world =
     \<lparr>fs = Map.empty, db_table = [], db_up = True, mailer_up = True, outbox = [],
      clock = (\<lambda>n. 100 + of_nat n), ticks = 0, state_file_text = None,
      cwd = ''/'', traceback = (\<lambda>e. Some (''Traceback: '' @ message e))\<rparr>"

definition ping :: "world \<Rightarrow> exn option \<times> world" where
  "ping w =
     (None, w\<lparr>outbox := outbox w @
                 [\<lparr>rcpt = [], sender = [], subject = ''ping'', body = []\<rparr>]\<rparr>)"

section \<open>Directories, database statements and mail\<close>

text \<open>
  \<^verbatim>\<open>shutil.rmtree\<close> and \<^verbatim>\<open>shutil.move\<close> are functions of Python's standard
  library; on the directory map they are taken as follows. \<open>rmtree\<close> removes an
  existing directory with all its content and raises for \<^verbatim>\<open>None\<close> and for a
  path that does not exist. \<open>move\<close> renames an existing directory to a path
  that is free, so that afterwards the old path is gone and the new path holds
  the content; it raises when the source does not exist or the destination is
  taken.
\<close>

definition rmtree :: "string option \<Rightarrow> world \<Rightarrow> exn option \<times> world" where
  "rmtree path w =
     (case path of
        None \<Rightarrow> (Some (raise_exn TypeError ''coercing to Unicode: need string, NoneType found''), w)
      | Some d \<Rightarrow>
         (case fs w d of
            None \<Rightarrow> (Some (raise_exn OSError (''No such file or directory: '' @ d)), w)
          | Some _ \<Rightarrow> (None, w\<lparr>fs := (fs w)(d := None)\<rparr>)))"

definition move :: "string \<Rightarrow> string \<Rightarrow> world \<Rightarrow> exn option \<times> world" where
  "move src dst w =
     (case fs w src of
        None \<Rightarrow> (Some (raise_exn IOError (''No such file or directory: '' @ src)), w)
      | Some content \<Rightarrow>
         if src = dst then (None, w)
         else if fs w dst \<noteq> None
         then (Some (raise_exn OSError (''Destination path already exists: '' @ dst)), w)
         else (None, w\<lparr>fs := (fs w)(src := None, dst := Some content)\<rparr>))"

text \<open>
  \<^verbatim>\<open>Database._change_job_state\<close> and \<^verbatim>\<open>Database._update_job\<close>: one \<^verbatim>\<open>UPDATE\<close> of the
  rows whose \<^verbatim>\<open>name\<close> is that of the metadata, committed, after which the
  metadata is marked as synchronised. A database that is down raises.
\<close>

definition change_job_state ::
  "JobMetadata \<Rightarrow> string \<Rightarrow> string \<Rightarrow> world \<Rightarrow> exn option \<times> JobMetadata \<times> world" where
  "change_job_state m oldstate newstate w =
     (if db_up w then
        (None, mark_synced m,
         w\<lparr>db_table :=
             map (\<lambda>r. if name (cols r) = name (dict m)
                       then \<lparr>cols = dict m, state = newstate\<rparr> else r)
                 (db_table w)\<rparr>)
      else (Some (raise_exn DatabaseError ''database statement failed''), m, w))"

definition update_job ::
  "JobMetadata \<Rightarrow> string \<Rightarrow> world \<Rightarrow> exn option \<times> JobMetadata \<times> world" where
  "update_job m st w =
     (if db_up w then
        (None, mark_synced m,
         w\<lparr>db_table :=
             map (\<lambda>r. if name (cols r) = name (dict m)
                       then r\<lparr>cols := dict m\<rparr> else r)
                 (db_table w)\<rparr>)
      else (Some (raise_exn DatabaseError ''database statement failed''), m, w))"

text \<open>\<^verbatim>\<open>Config.send_email\<close> (for a list of recipients) and \<^verbatim>\<open>Config.send_admin_email\<close>.\<close>

definition send_email ::
  "Config \<Rightarrow> string list \<Rightarrow> string \<Rightarrow> string \<Rightarrow> world \<Rightarrow> exn option \<times> world" where
  "send_email cfg to subj bdy w =
     (if mailer_up w then
        (None, w\<lparr>outbox := outbox w @
                    [\<lparr>rcpt = to, sender = admin_email cfg, subject = subj, body = bdy\<rparr>]\<rparr>)
      else (Some (raise_exn OSError ''cannot run /usr/sbin/sendmail''), w))"

definition send_admin_email ::
  "Config \<Rightarrow> string \<Rightarrow> string \<Rightarrow> world \<Rightarrow> exn option \<times> world" where
  "send_admin_email cfg subj bdy w = send_email cfg [admin_email cfg] subj bdy w"

section \<open>\<^verbatim>\<open>Job\<close>: changing state and failing\<close>

text \<open>
  The directory part of \<^verbatim>\<open>Job.__internal_set_state\<close>, that is the
  \<^verbatim>\<open>if state == 'EXPIRED' ... elif ...\<close> statement, run after the transition.
\<close>

definition set_state_directory ::
  "Config \<Rightarrow> string \<Rightarrow> Job \<Rightarrow> world \<Rightarrow> exn option \<times> Job \<times> world" where
  "set_state_directory cfg st job w =
     (if st = ''EXPIRED'' then
        (case rmtree (directory (dict (metadata job))) w of
           (Some e, w') \<Rightarrow> (Some e, job, w')
         | (None, w') \<Rightarrow>
             (None,
              job\<lparr>metadata := setitem directory directory_update None (metadata job)\<rparr>,
              w'))
      else
        (case directory (dict (metadata job)) of
           None \<Rightarrow> (None, job, w)
         | Some current \<Rightarrow>
            (case directories cfg st of
               None \<Rightarrow> (Some (raise_exn KeyError st), job, w)
             | Some d \<Rightarrow>
                (let target = normpath (path_join d (name (dict (metadata job)))) in
                 if target \<noteq> current then
                   (case move current target w of
                      (Some e, w') \<Rightarrow> (Some e, job, w')
                    | (None, w') \<Rightarrow>
                        (None,
                         job\<lparr>metadata := setitem directory directory_update
                                             (Some target) (metadata job)\<rparr>,
                         w'))
                 else (None, job, w)))))"

text \<open>\<^verbatim>\<open>Job.__internal_set_state\<close>.\<close>

definition internal_set_state ::
  "Config \<Rightarrow> string \<Rightarrow> Job \<Rightarrow> world \<Rightarrow> exn option \<times> Job \<times> world" where
  "internal_set_state cfg st job w =
     (let oldstate = jstate job in
      case transition (jstate job) st of
        (Some e, s) \<Rightarrow> (Some e, job\<lparr>jstate := s\<rparr>, w)
      | (None, s) \<Rightarrow>
         (case set_state_directory cfg st (job\<lparr>jstate := s\<rparr>) w of
            (Some e, job', w') \<Rightarrow> (Some e, job', w')
          | (None, job', w') \<Rightarrow>
             (case change_job_state (metadata job') oldstate st w' of
                (r, m, w'') \<Rightarrow> (r, job'\<lparr>metadata := m\<rparr>, w''))))"

text \<open>
  \<^verbatim>\<open>Job._fail\<close>. The \<^verbatim>\<open>except\<close> clause stores the failure text in the
  attribute \<^verbatim>\<open>original_error\<close> of the exception it re-raises.
\<close>

definition failure_text :: "world \<Rightarrow> exn \<Rightarrow> string" where
  "failure_text w reason =
     ''Python exception:'' @ [CHR 0x0A] @
     (case traceback w reason of None \<Rightarrow> message reason | Some err \<Rightarrow> err)"

definition fail :: "Config \<Rightarrow> exn \<Rightarrow> Job \<Rightarrow> world \<Rightarrow> exn option \<times> Job \<times> world" where
  "fail cfg reason job w =
     (let reason_text = failure_text w reason;
          job1 = job\<lparr>metadata := setitem failure failure_update (Some reason_text)
                                       (metadata job)\<rparr>
      in case internal_set_state cfg ''FAILED'' job1 w of
           (Some detail, job2, w') \<Rightarrow>
             (Some (detail\<lparr>original_error := Some reason_text\<rparr>), job2, w')
         | (None, job2, w') \<Rightarrow>
             (let subj = ''Sali lab '' @ service_name cfg @ '' service: Job '' @
                         name (dict (metadata job2)) @ '' FAILED'';
                  bdy = ''Job '' @ name (dict (metadata job2)) @
                        '' failed with the following error:'' @ [CHR 0x0A] @ reason_text
              in case send_admin_email cfg subj bdy w' of
                   (Some detail, w'') \<Rightarrow>
                     (Some (detail\<lparr>original_error := Some reason_text\<rparr>), job2, w'')
                 | (None, w'') \<Rightarrow> (None, job2, w'')))"

text \<open>\<^verbatim>\<open>Job._set_state\<close>.\<close>

definition set_state :: "Config \<Rightarrow> string \<Rightarrow> Job \<Rightarrow> world \<Rightarrow> exn option \<times> Job \<times> world" where
  "set_state cfg st job w =
     (case internal_set_state cfg st job w of
        (Some detail, job', w') \<Rightarrow> fail cfg detail job' w'
      | (None, job', w') \<Rightarrow> (None, job', w'))"

section \<open>The startup sanity check and fatal errors\<close>

text \<open>\<^verbatim>\<open>Job._sanity_check\<close>.\<close>

definition job_sanity_check :: "Config \<Rightarrow> Job \<Rightarrow> world \<Rightarrow> exn option \<times> Job \<times> world" where
  "job_sanity_check cfg job w =
     (let st = jstate job in
      if st = ''PREPROCESSING'' \<or> st = ''POSTPROCESSING'' then
        fail cfg
          (raise_exn SanityError
             (''Job '' @ name (dict (metadata job)) @ '' is in state '' @ st @
              ''; this should not be '' @
              ''possible unless the web service were shut '' @
              ''down uncleanly''))
          job w
      else (None, job, w))"

text \<open>
  \<^verbatim>\<open>_JobState.__init__\<close> and \<^verbatim>\<open>Database._get_all_jobs_in_state(state)\<close> without the
  optional arguments: the jobs built from the rows the query returns, each
  with a synchronised \<^verbatim>\<open>_JobMetadata\<close>. The rows of the result are fetched when
  the statement is executed, so the list is taken at once.
\<close>

definition JobState_init :: "string \<Rightarrow> exn + string" where
  "JobState_init st =
     (if st \<in> set valid_states then Inr st
      else Inl (raise_exn InvalidStateError (st @ '' is not a valid state'')))"

definition get_all_jobs_in_state :: "string \<Rightarrow> world \<Rightarrow> exn + Job list" where
  "get_all_jobs_in_state st w =
     (if \<not> db_up w then Inl (raise_exn DatabaseError ''database statement failed'')
      else
        (let rows = filter (\<lambda>r. state r = st) (db_table w) in
         if rows = [] then Inr []
         else (case JobState_init st of
                 Inl e \<Rightarrow> Inl e
               | Inr s \<Rightarrow>
                   Inr (map (\<lambda>r. \<lparr>metadata = \<lparr>dict = cols r, needs_sync = False\<rparr>,
                                    jstate = s\<rparr>) rows))))"

text \<open>The loop \<^verbatim>\<open>for job in ...: job._sanity_check()\<close>.\<close>

fun sanity_loop :: "Config \<Rightarrow> Job list \<Rightarrow> world \<Rightarrow> exn option \<times> world" where
  "sanity_loop cfg [] w = (None, w)"
| "sanity_loop cfg (job # jobs) w =
     (case job_sanity_check cfg job w of
        (Some e, job', w') \<Rightarrow> (Some e, w')
      | (None, job', w') \<Rightarrow> sanity_loop cfg jobs w')"

text \<open>\<^verbatim>\<open>WebService._sanity_check\<close>.\<close>

definition ws_sanity_check :: "Config \<Rightarrow> world \<Rightarrow> exn option \<times> world" where
  "ws_sanity_check cfg w =
     (case get_all_jobs_in_state ''PREPROCESSING'' w of
        Inl e \<Rightarrow> (Some e, w)
      | Inr jobs \<Rightarrow>
         (case sanity_loop cfg jobs w of
            (Some e, w') \<Rightarrow> (Some e, w')
          | (None, w') \<Rightarrow>
             (case get_all_jobs_in_state ''POSTPROCESSING'' w' of
                Inl e \<Rightarrow> (Some e, w')
              | Inr jobs' \<Rightarrow> sanity_loop cfg jobs' w')))"

text \<open>
  \<^verbatim>\<open>WebService._handle_fatal_error\<close>: it always ends by raising, either the
  exception being handled or the one the mailer raised. Writing the state
  file is taken to succeed.
\<close>

definition fatal_error_text :: "world \<Rightarrow> exn \<Rightarrow> string" where
  "fatal_error_text w detail =
     (case traceback w detail of None \<Rightarrow> ''Error: '' @ message detail | Some err \<Rightarrow> err) @
     (case original_error detail of
        None \<Rightarrow> []
      | Some orig \<Rightarrow>
          [CHR 0x0A, CHR 0x0A] @ ''This error in turn occurred while trying to '' @
          ''handle the original error below:'' @ [CHR 0x0A] @ orig)"

definition handle_fatal_error :: "Config \<Rightarrow> exn \<Rightarrow> world \<Rightarrow> exn \<times> world" where
  "handle_fatal_error cfg detail w =
     (let err = fatal_error_text w detail;
          w1 = w\<lparr>state_file_text := Some (''FAILED: '' @ err @ [CHR 0x0A])\<rparr>;
          subj = ''Sali lab '' @ service_name cfg @ '' service: SHUTDOWN WITH FATAL ERROR'';
          bdy = [CHR 0x0A] @ ''The '' @ service_name cfg @
                '' service encounted an unrecoverable error and'' @ [CHR 0x0A] @
                ''has been shut down.'' @ [CHR 0x0A, CHR 0x0A] @ err @ [CHR 0x0A, CHR 0x0A] @
                ''Since this can leave the system in an inconsistent state, no further'' @
                [CHR 0x0A] @
                ''runs will start until the problem has been manually resolved. When you'' @
                [CHR 0x0A] @
                ''have done this, delete the state file ('' @ state_file cfg @
                '') to reenable runs.'' @ [CHR 0x0A]
      in case send_admin_email cfg subj bdy w1 of
           (Some e, w2) \<Rightarrow> (e, w2)
         | (None, w2) \<Rightarrow> (detail, w2))"

section \<open>\<^verbatim>\<open>Job\<close>: completing a job\<close>

text \<open>
  \<^verbatim>\<open>Job._run_in_job_directory(meth)\<close>: \<^verbatim>\<open>os.chdir\<close> raises for \<^verbatim>\<open>None\<close> and for a
  directory that does not exist; the \<^verbatim>\<open>finally\<close> clause restores the working
  directory on every path.
\<close>

definition run_in_job_directory ::
  "(Job \<Rightarrow> world \<Rightarrow> exn option \<times> Job \<times> world) \<Rightarrow> Job \<Rightarrow> world \<Rightarrow>
   exn option \<times> Job \<times> world" where
  "run_in_job_directory hook job w =
     (let saved = cwd w in
      case directory (dict (metadata job)) of
        None \<Rightarrow> (Some (raise_exn TypeError ''chdir() argument 1 must be string, not None''),
                 job, w)
      | Some d \<Rightarrow>
         (if fs w d = None
          then (Some (raise_exn OSError (''No such file or directory: '' @ d)), job, w)
          else (case hook job (w\<lparr>cwd := d\<rparr>) of
                  (r, job', w') \<Rightarrow> (r, job', w'\<lparr>cwd := saved\<rparr>))))"

text \<open>\<^verbatim>\<open>Job.complete\<close>, which does nothing in the class \<^verbatim>\<open>Job\<close>.\<close>

definition complete :: "Job \<Rightarrow> world \<Rightarrow> exn option \<times> Job \<times> world" where
  "complete job w = (None, job, w)"

text \<open>\<^verbatim>\<open>Job._sync_metadata\<close>.\<close>

definition sync_metadata :: "Job \<Rightarrow> world \<Rightarrow> exn option \<times> Job \<times> world" where
  "sync_metadata job w =
     (if needs_sync (metadata job) then
        (case update_job (metadata job) (jstate job) w of
           (r, m, w') \<Rightarrow> (r, job\<lparr>metadata := m\<rparr>, w'))
      else (None, job, w))"

text \<open>
  \<^verbatim>\<open>Job.send_user_email\<close> and \<^verbatim>\<open>Job.send_job_completed_email\<close>. The test
  \<^verbatim>\<open>if self._metadata['contact_email']\<close> holds for a string that is not empty.
\<close>

definition send_user_email ::
  "Config \<Rightarrow> Job \<Rightarrow> string \<Rightarrow> string \<Rightarrow> world \<Rightarrow> exn option \<times> world" where
  "send_user_email cfg job subj bdy w =
     (case contact_email (dict (metadata job)) of
        None \<Rightarrow> (None, w)
      | Some addr \<Rightarrow>
          if addr \<noteq> [] then send_email cfg [addr] subj bdy w else (None, w))"

definition completed_subject :: "Config \<Rightarrow> Job \<Rightarrow> string" where
  "completed_subject cfg job =
     ''Sali lab '' @ service_name cfg @ '' service: Job '' @
     name (dict (metadata job)) @ '' complete''"

definition completed_body :: "Job \<Rightarrow> string" where
  "completed_body job =
     ''Your job '' @ name (dict (metadata job)) @ '' has finished.'' @
     [CHR 0x0A, CHR 0x0A] @
     ''Results can be found at '' @ url (dict (metadata job)) @ [CHR 0x0A]"

definition send_job_completed_email :: "Config \<Rightarrow> Job \<Rightarrow> world \<Rightarrow> exn option \<times> world" where
  "send_job_completed_email cfg job w =
     send_user_email cfg job (completed_subject cfg job) (completed_body job) w"

text \<open>\<^verbatim>\<open>Job._mark_job_completed\<close>; \<^verbatim>\<open>datetime.utcnow()\<close> is a reading of the clock.\<close>

definition mark_job_completed ::
  "Config \<Rightarrow> Job \<Rightarrow> world \<Rightarrow> exn option \<times> Job \<times> world" where
  "mark_job_completed cfg job w =
     (case time_time w of
        (endtime, w1) \<Rightarrow>
         (let m1 = setitem end_time end_time_update (Some endtime) (metadata job);
              archive_t = (case archive (oldjobs_of cfg) of
                             None \<Rightarrow> None | Some delta \<Rightarrow> Some (endtime + delta));
              expire_t = (case expire (oldjobs_of cfg) of
                            None \<Rightarrow> None | Some delta \<Rightarrow> Some (endtime + delta));
              m2 = setitem archive_time archive_time_update archive_t m1;
              m3 = setitem expire_time expire_time_update expire_t m2
          in case set_state cfg ''COMPLETED'' (job\<lparr>metadata := m3\<rparr>) w1 of
               (Some e, job2, w2) \<Rightarrow> (Some e, job2, w2)
             | (None, job2, w2) \<Rightarrow>
                (case run_in_job_directory complete job2 w2 of
                   (Some e, job3, w3) \<Rightarrow> (Some e, job3, w3)
                 | (None, job3, w3) \<Rightarrow>
                    (case sync_metadata job3 w3 of
                       (Some e, job4, w4) \<Rightarrow> (Some e, job4, w4)
                     | (None, job4, w4) \<Rightarrow>
                        (case send_job_completed_email cfg job4 w4 of
                           (r, w5) \<Rightarrow> (r, job4, w5))))))"

section \<open>A configuration and a job for concrete runs\<close>

definition example_config :: Config where
  "example_config =
     \<lparr>directories = [''install'' \<mapsto> ''/opt/svc'', ''INCOMING'' \<mapsto> ''/inc'',
                      ''PREPROCESSING'' \<mapsto> ''/pre'', ''RUNNING'' \<mapsto> ''/run'',
                      ''POSTPROCESSING'' \<mapsto> ''/post'', ''COMPLETED'' \<mapsto> ''/done'',
                      ''FAILED'' \<mapsto> ''/failed'', ''ARCHIVED'' \<mapsto> ''/arch''],
      oldjobs_of = \<lparr>archive = Some (7 * 86400), expire = None\<rparr>,
      admin_email = ''admin@example.org'',
      service_name = ''modfoo'',
      state_file = ''/var/run/modfoo.state''\<rparr>"

definition example_columns :: "string \<Rightarrow> string option \<Rightarrow> columns" where
  "example_columns n d =
     \<lparr>name = n, user = None, passwd = None, contact_email = Some ''user@example.org'',
      directory = d, url = ''http://server/job/'' @ n, submit_time = 50,
      preprocess_time = None, run_time = None, postprocess_time = None,
      end_time = None, archive_time = None, expire_time = None,
      runner_id = None, failure = None\<rparr>"

definition example_job :: "string \<Rightarrow> string option \<Rightarrow> string \<Rightarrow> Job" where
  "example_job n d st =
     \<lparr>metadata = \<lparr>dict = example_columns n d, needs_sync = False\<rparr>, jstate = st\<rparr>"

text \<open>
  The path \<^verbatim>\<open>normpath(join(config.directories[state], name))\<close> the invariant of
  the specification speaks of; \<open>None\<close> when the configuration has no directory
  for the state.
\<close>

definition target_dir :: "Config \<Rightarrow> string \<Rightarrow> Job \<Rightarrow> string option" where
  "target_dir cfg st job =
     map_option (\<lambda>c. normpath (path_join c (name (dict (metadata job)))))
       (directories cfg st)"

definition example_row :: "string \<Rightarrow> string \<Rightarrow> string \<Rightarrow> row" where
  "example_row n d st = \<lparr>cols = example_columns n (Some d), state = st\<rparr>"

definition example_world_jobs :: world where
  "example_world_jobs =
     example_world
       \<lparr>fs := [''/post/j1'' \<mapsto> [''out.txt''], ''/arch/j2'' \<mapsto> [''result.tar''],
               ''/pre/j3'' \<mapsto> [], ''/run/j4'' \<mapsto> [''job-state'']],
        db_table := [example_row ''j1'' ''/post/j1'' ''POSTPROCESSING'',
                     example_row ''j2'' ''/arch/j2'' ''ARCHIVED'',
                     example_row ''j3'' ''/pre/j3'' ''PREPROCESSING'',
                     example_row ''j4'' ''/run/j4'' ''RUNNING'']\<rparr>"

text \<open>
  How a row of the job table may change during the startup sanity check: it
  keeps its name, and its state stays or becomes FAILED.
\<close>

definition row_kept_or_failed :: "row \<Rightarrow> row \<Rightarrow> bool" where
  "row_kept_or_failed r r' =
     (name (cols r') = name (cols r) \<and> (state r' = state r \<or> state r' = ''FAILED''))"


text \<open>
  The columns that nothing after the first statements of
  \<^verbatim>\<open>Job._mark_job_completed\<close> assigns: two column records agree on them.
\<close>

definition same_completion_columns :: "columns \<Rightarrow> columns \<Rightarrow> bool" where
  "same_completion_columns c c' =
     (name c' = name c \<and> url c' = url c \<and> contact_email c' = contact_email c
      \<and> end_time c' = end_time c \<and> archive_time c' = archive_time c
      \<and> expire_time c' = expire_time c)"

text \<open>The message \<^verbatim>\<open>Job.send_job_completed_email\<close> sends to the address given.\<close>

definition completed_email :: "Config \<Rightarrow> Job \<Rightarrow> string \<Rightarrow> email" where
  "completed_email cfg job addr =
     \<lparr>rcpt = [addr], sender = admin_email cfg,
      subject = completed_subject cfg job, body = completed_body job\<rparr>"

section \<open>Theorems\<close>

lemma member_valid_transitions:
  "[s, s'] \<in> set valid_transitions \<longleftrightarrow> legal_table s s'"
  by (auto simp: valid_transitions_def legal_table.simps)

text \<open>
  Claim C1. For every held state \<open>s\<close> and requested state \<open>s'\<close> (any two strings,
  so in particular any two job states), \<^verbatim>\<open>_JobState.transition\<close> performs the
  change (no exception, the held state becomes \<open>s'\<close>) if and only if \<open>(s, s')\<close> is a
  row of the legal-transition table or \<open>s'\<close> is FAILED; in every other case it
  raises \<^verbatim>\<open>InvalidStateError\<close> and the held state is still \<open>s\<close>.
\<close>

theorem transition_iff_legal:
  "(transition s s' = (None, s') \<longleftrightarrow> legal_table s s' \<or> s' = ''FAILED'')
   \<and> (\<not> (legal_table s s' \<or> s' = ''FAILED'') \<longrightarrow>
        (\<exists>e. transition s s' = (Some e, s) \<and> cls e = InvalidStateError))"
  by (auto simp: transition_def Let_def member_valid_transitions raise_exn_def)

theorem transition_iff_legal_witness:
  "transition ''RUNNING'' ''POSTPROCESSING'' = (None, ''POSTPROCESSING'')
   \<and> legal_table ''RUNNING'' ''POSTPROCESSING''
   \<and> \<not> (legal_table ''COMPLETED'' ''RUNNING'' \<or> ''RUNNING'' = ''FAILED'')
   \<and> (\<exists>e. transition ''COMPLETED'' ''RUNNING'' = (Some e, ''COMPLETED'')
          \<and> cls e = InvalidStateError)"
  using transition_iff_legal [of "''RUNNING''" "''POSTPROCESSING''"]
        transition_iff_legal [of "''COMPLETED''" "''RUNNING''"]
  by (simp add: legal_table.simps)

subsection \<open>The time-delta parser and the oldjobs check\<close>

lemma upper_never_last:
  "upper raw = ''NEVER'' \<Longrightarrow> raw \<noteq> [] \<and> last raw \<notin> set ''hdmy''"
proof -
  assume a: "upper raw = ''NEVER''"
  then have ne: "raw \<noteq> []" by (auto simp: upper_def)
  have "last (upper raw) = upper_char (last raw)"
    using ne by (simp add: upper_def last_map)
  with a have "upper_char (last raw) = CHR ''R''" by simp
  then have "last raw \<notin> set ''hdmy''"
    by (auto simp: upper_char_def)
  with ne show ?thesis by simp
qed

lemma get_time_delta_error_iff:
  "(\<exists>e. get_time_delta pyfloat raw = Inl e) \<longleftrightarrow> \<not> time_delta_format pyfloat raw"
  using upper_never_last [of raw]
  by (auto simp: get_time_delta_def time_delta_format_def endswith_def
           split: option.splits)

lemma get_time_delta_error_val:
  "get_time_delta pyfloat raw = Inl e \<Longrightarrow> e = time_delta_error raw"
  by (auto simp: get_time_delta_def split: option.splits if_splits)

text \<open>
  Claim C7, as amended. With a \<^verbatim>\<open>float\<close> that reads \<^verbatim>\<open>'1'\<close> as 1,
  \<^verbatim>\<open>Config._get_time_delta\<close> maps \<^verbatim>\<open>1h\<close> to 3600 seconds, \<^verbatim>\<open>1d\<close> to 86400 seconds,
  \<^verbatim>\<open>1m\<close> to 30 days, \<^verbatim>\<open>1y\<close> to 365 days, and NEVER, in any letter case, to
  \<^verbatim>\<open>None\<close>; every input of another format fails with the \<^verbatim>\<open>ValueError\<close> of the
  final \<^verbatim>\<open>raise\<close> (no \<^verbatim>\<open>ConfigError\<close> is raised here), and every input of the
  format is accepted.
\<close>

theorem get_time_delta_cases:
  assumes "pyfloat ''1'' = Some 1"
  shows "get_time_delta pyfloat ''1h'' = Inr (Some (timedelta_seconds 3600))
       \<and> get_time_delta pyfloat ''1d'' = Inr (Some (timedelta_seconds 86400))
       \<and> get_time_delta pyfloat ''1m'' = Inr (Some (timedelta_days 30))
       \<and> get_time_delta pyfloat ''1y'' = Inr (Some (timedelta_days 365))
       \<and> get_time_delta pyfloat ''NEVER'' = Inr None
       \<and> (\<forall>raw. upper raw = ''NEVER'' \<longrightarrow> get_time_delta pyfloat raw = Inr None)
       \<and> (\<forall>raw. \<not> time_delta_format pyfloat raw \<longrightarrow>
             get_time_delta pyfloat raw = Inl (time_delta_error raw)
           \<and> cls (time_delta_error raw) = ValueError)
       \<and> (\<forall>raw. time_delta_format pyfloat raw \<longrightarrow>
             (\<exists>v. get_time_delta pyfloat raw = Inr v))"
proof -
  have c1: "get_time_delta pyfloat ''1h'' = Inr (Some (timedelta_seconds 3600))"
    using assms by (simp add: get_time_delta_def endswith_def timedelta_seconds_def)
  have c2: "get_time_delta pyfloat ''1d'' = Inr (Some (timedelta_seconds 86400))"
    using assms by (simp add: get_time_delta_def endswith_def timedelta_seconds_def timedelta_days_def)
  have c3: "get_time_delta pyfloat ''1m'' = Inr (Some (timedelta_days 30))"
    using assms by (simp add: get_time_delta_def endswith_def)
  have c4: "get_time_delta pyfloat ''1y'' = Inr (Some (timedelta_days 365))"
    using assms by (simp add: get_time_delta_def endswith_def)
  have c5: "get_time_delta pyfloat raw = Inr None" if "upper raw = ''NEVER''" for raw
    using upper_never_last [OF that] that
    by (simp add: get_time_delta_def endswith_def)
  have u: "upper ''NEVER'' = ''NEVER''"
    by (simp add: upper_def upper_char_def)
  have c6: "get_time_delta pyfloat raw = Inl (time_delta_error raw)
            \<and> cls (time_delta_error raw) = ValueError"
    if "\<not> time_delta_format pyfloat raw" for raw
  proof -
    from that obtain e where "get_time_delta pyfloat raw = Inl e"
      using get_time_delta_error_iff by blast
    then have "get_time_delta pyfloat raw = Inl (time_delta_error raw)"
      using get_time_delta_error_val [of pyfloat raw e] by simp
    then show ?thesis
      by (simp add: time_delta_error_def raise_exn_def)
  qed
  have c7: "\<exists>v. get_time_delta pyfloat raw = Inr v"
    if "time_delta_format pyfloat raw" for raw
    using that get_time_delta_error_iff [of pyfloat raw]
    by (cases "get_time_delta pyfloat raw") auto
  show ?thesis using c1 c2 c3 c4 c5 [OF u] c5 c6 c7 by blast
qed

lemma decimal_1: "decimal ''1'' = Some 1"
  by (simp add: decimal_def digit_val_def)

theorem get_time_delta_cases_witness:
  "decimal ''1'' = Some 1
   \<and> get_time_delta decimal ''1h'' = Inr (Some 3600)
   \<and> get_time_delta decimal ''1m'' = Inr (Some (30 * 86400))
   \<and> upper ''Never'' = ''NEVER'' \<and> get_time_delta decimal ''Never'' = Inr None
   \<and> \<not> time_delta_format decimal ''7 days''
   \<and> get_time_delta decimal ''7 days'' = Inl (time_delta_error ''7 days'')
   \<and> time_delta_format decimal ''1y''"
proof -
  have u: "upper ''Never'' = ''NEVER''" by (simp add: upper_def upper_char_def)
  have nf: "\<not> time_delta_format decimal ''7 days''"
    by (simp add: time_delta_format_def upper_def upper_char_def)
  have f: "time_delta_format decimal ''1y''"
    by (simp add: time_delta_format_def decimal_1)
  show ?thesis
    using get_time_delta_cases [of decimal] u nf f decimal_1
    by (simp add: timedelta_seconds_def timedelta_days_def)
qed

text \<open>
  The claim as stated fails at the input \<^verbatim>\<open>soon\<close>: the exception raised is a
  \<^verbatim>\<open>ValueError\<close>, not a \<^verbatim>\<open>ConfigError\<close>.
\<close>

theorem get_time_delta_counterexample:
  "get_time_delta decimal ''soon'' = Inl (time_delta_error ''soon'')
   \<and> cls (time_delta_error ''soon'') = ValueError
   \<and> cls (time_delta_error ''soon'') \<noteq> ConfigError"
  by (simp add: get_time_delta_def endswith_def upper_def upper_char_def
                time_delta_error_def raise_exn_def)

text \<open>
  Claim C8. Once both options have been read, \<^verbatim>\<open>Config._populate_oldjobs\<close> enforces
  \<open>archive \<le> expire\<close> with NEVER as \<open>+\<infinity>\<close>: when the constraint fails, that is when
  expire is finite and archive is NEVER or greater than expire, it raises a
  \<^verbatim>\<open>ConfigError\<close> whose message quotes both configured texts; every other pair of
  values is accepted and stored.
\<close>

theorem populate_oldjobs_check:
  assumes "get_time_delta pyfloat raw_a = Inr a"
      and "get_time_delta pyfloat raw_x = Inr x"
  shows "(\<not> archive_le_expire a x \<longrightarrow>
            (\<exists>e. populate_oldjobs pyfloat raw_a raw_x = Inl e
                 \<and> cls e = ConfigError
                 \<and> message e = ''archive time ('' @ raw_a @
                       '') cannot be greater than expire time ('' @ raw_x @ '')''))
       \<and> (archive_le_expire a x \<longrightarrow>
            populate_oldjobs pyfloat raw_a raw_x = Inr \<lparr>archive = a, expire = x\<rparr>)
       \<and> (\<not> archive_le_expire a x \<longleftrightarrow> x \<noteq> None \<and> (a = None \<or> the a > the x))"
  using assms
  by (auto simp: populate_oldjobs_def archive_le_expire_def raise_exn_def
           split: option.splits)

theorem populate_oldjobs_check_witness:
  "get_time_delta decimal ''30d'' = Inr (Some (30 * 86400))
   \<and> get_time_delta decimal ''7d'' = Inr (Some (7 * 86400))
   \<and> get_time_delta decimal ''NEVER'' = Inr None
   \<and> \<not> archive_le_expire (Some (30 * 86400)) (Some (7 * 86400))
   \<and> (\<exists>e. populate_oldjobs decimal ''30d'' ''7d'' = Inl e \<and> cls e = ConfigError
         \<and> message e = ''archive time (30d) cannot be greater than expire time (7d)'')
   \<and> archive_le_expire (Some (7 * 86400)) None
   \<and> populate_oldjobs decimal ''7d'' ''NEVER''
       = Inr \<lparr>archive = Some (7 * 86400), expire = None\<rparr>"
proof -
  have a: "get_time_delta decimal ''30d'' = Inr (Some (30 * 86400))"
    by (simp add: get_time_delta_def endswith_def decimal_def digit_val_def timedelta_days_def)
  have b: "get_time_delta decimal ''7d'' = Inr (Some (7 * 86400))"
    by (simp add: get_time_delta_def endswith_def decimal_def digit_val_def timedelta_days_def)
  have c: "get_time_delta decimal ''NEVER'' = Inr None"
    by (simp add: get_time_delta_def endswith_def upper_def upper_char_def)
  have d: "\<not> archive_le_expire (Some (30 * 86400)) (Some (7 * 86400))"
    by (simp add: archive_le_expire_def)
  have e: "archive_le_expire (Some (7 * 86400)) None"
    by (simp add: archive_le_expire_def)
  show ?thesis
    using populate_oldjobs_check [of decimal, OF a b] populate_oldjobs_check [of decimal, OF b c] a b c d e
    by simp
qed


subsection \<open>Completion of a running job\<close>

lemma retry_all_fail:
  "(\<forall>j<n. \<not> job_state_file_done (reads (i + j))) \<Longrightarrow>
   retry_state_file n reads i t = (False, i + n, t + state_file_wait_time * of_nat n)"
proof (induction n arbitrary: i t)
  case 0
  then show ?case by simp
next
  case (Suc n)
  have h0: "\<not> job_state_file_done (reads i)" using Suc.prems by force
  have "\<forall>j<n. \<not> job_state_file_done (reads (Suc i + j))"
    using Suc.prems by (metis Suc_less_eq add_Suc_shift)
  from Suc.IH [OF this] h0 show ?case
    by (simp add: algebra_simps)
qed

lemma retry_first_success:
  "k < n \<Longrightarrow> job_state_file_done (reads (i + k)) \<Longrightarrow>
   (\<forall>j<k. \<not> job_state_file_done (reads (i + j))) \<Longrightarrow>
   retry_state_file n reads i t = (True, Suc (i + k), t + state_file_wait_time * of_nat k)"
proof (induction n arbitrary: i t k)
  case 0
  then show ?case by simp
next
  case (Suc n)
  show ?case
  proof (cases k)
    case 0
    with Suc.prems show ?thesis by simp
  next
    case (Suc k')
    have h0: "\<not> job_state_file_done (reads i)" using Suc.prems Suc by force
    have a: "k' < n" using Suc.prems Suc by simp
    have b: "job_state_file_done (reads (Suc i + k'))" using Suc.prems Suc by simp
    have c: "\<forall>j<k'. \<not> job_state_file_done (reads (Suc i + j))"
      using Suc.prems(3) Suc by (metis Suc_less_eq add_Suc_shift)
    from Suc.IH [OF a b c] h0 Suc show ?thesis
      by (simp add: algebra_simps)
  qed
qed

lemma retry_reads_bound:
  "fst (snd (retry_state_file n reads i t)) \<le> i + n"
proof (induction n arbitrary: i t)
  case 0
  then show ?case by simp
next
  case (Suc n)
  have "fst (snd (retry_state_file n reads (Suc i) (t + state_file_wait_time))) \<le> Suc i + n"
    by (rule Suc.IH)
  then show ?case by simp
qed

lemma retry_true_iff:
  "fst (retry_state_file n reads i t) \<longleftrightarrow> (\<exists>k<n. job_state_file_done (reads (i + k)))"
proof (induction n arbitrary: i t)
  case 0
  then show ?case by simp
next
  case (Suc n)
  show ?case
  proof (cases "job_state_file_done (reads i)")
    case True
    then have "\<exists>k<Suc n. job_state_file_done (reads (i + k))"
      by (intro exI [of _ 0]) simp
    with True show ?thesis by simp
  next
    case False
    have "(\<exists>k<Suc n. job_state_file_done (reads (i + k)))
          \<longleftrightarrow> (\<exists>k<n. job_state_file_done (reads (Suc i + k)))"
    proof
      assume "\<exists>k<Suc n. job_state_file_done (reads (i + k))"
      then obtain k where k: "k < Suc n" "job_state_file_done (reads (i + k))" by blast
      with False have "k \<noteq> 0" by (cases k) auto
      then obtain k' where "k = Suc k'" by (cases k) auto
      with k show "\<exists>k<n. job_state_file_done (reads (Suc i + k))"
        by (intro exI [of _ k']) simp
    next
      assume "\<exists>k<n. job_state_file_done (reads (Suc i + k))"
      then obtain k where "k < n" "job_state_file_done (reads (Suc i + k))" by blast
      then show "\<exists>k<Suc n. job_state_file_done (reads (i + k))"
        by (intro exI [of _ "Suc k"]) simp
    qed
    with False Suc.IH [of "Suc i" "t + state_file_wait_time"] show ?thesis by simp
  qed
qed

lemma runner_done_Some:
  "runner_done runners rid = Inr b \<Longrightarrow> \<exists>r. rid = Some r"
  by (cases rid) (auto simp: runner_done_def)

lemma has_completed_unfold:
  assumes "runner_done runners rid = Inr b"
  shows "has_completed runners rid dir reads =
          (if job_state_file_done (reads 0) \<and> b \<noteq> Some False then (Inr True, 1, 0)
           else if b = Some True \<and> \<not> job_state_file_done (reads 0) then
              (case retry_state_file 5 reads 1 0 of
                 (True, n, slept) \<Rightarrow> (Inr True, n, slept)
               | (False, n, slept) \<Rightarrow>
                   (Inl (raise_exn RunnerError (runner_error_message rid dir)), n, slept))
           else (Inr False, 1, 0))"
  using assms by (simp add: has_completed_def Let_def)

lemma completion_table_Complete:
  "completion_table d b = Some Complete \<longleftrightarrow> d \<and> b \<noteq> Some False"
  by (cases b) (auto simp: completion_table_def)

lemma completion_table_Not_yet:
  "completion_table d b = Some Not_yet \<longleftrightarrow> \<not> d \<and> b \<noteq> Some True"
  by (cases b) (auto simp: completion_table_def)

lemma completion_table_Retry:
  "completion_table d b = Some Retry_then_fail \<longleftrightarrow> \<not> d \<and> b = Some True"
  by (cases b) (auto simp: completion_table_def)

lemma has_completed_retry:
  assumes "runner_done runners rid = Inr (Some True)"
      and "\<not> job_state_file_done (reads 0)"
      and "retry_state_file 5 reads 1 0 = (r, n, t)"
  shows "has_completed runners rid dir reads =
           (if r then Inr True
            else Inl (raise_exn RunnerError (runner_error_message rid dir)), n, t)"
  using assms by (simp add: has_completed_unfold)

text \<open>
  Claim C3. For a job whose runner answers (the registry knows it), the verdict of
  \<^verbatim>\<open>Job._has_completed\<close>, on which \<^verbatim>\<open>Job._try_complete\<close> proceeds or returns, follows
  the table of section 4.5.2: complete, after one reading, when the job-state
  file reads DONE (trailing CR and LF stripped) and the runner does not report
  the job as running; not yet, after one reading, when the file is not DONE
  and the runner reports running or unknown; and when the file is not DONE but
  the runner reports done, the file is read again at most 5 times, 5 seconds
  apart: the first reading that finds DONE makes the job complete, and when
  none does a \<^verbatim>\<open>RunnerError\<close> is raised after 5 readings and 25 seconds, whose
  message quotes the runner id and the job directory. The job is declared
  complete in these cases only.
\<close>

theorem has_completed_table:
  assumes "runner_done runners rid = Inr b"
  shows "(completion_table (job_state_file_done (reads 0)) b = Some Complete \<longrightarrow>
            has_completed runners rid dir reads = (Inr True, 1, 0))
       \<and> (completion_table (job_state_file_done (reads 0)) b = Some Not_yet \<longrightarrow>
            has_completed runners rid dir reads = (Inr False, 1, 0))
       \<and> (completion_table (job_state_file_done (reads 0)) b = Some Retry_then_fail \<longrightarrow>
            (\<forall>k<5. job_state_file_done (reads (Suc k))
                    \<and> (\<forall>j<k. \<not> job_state_file_done (reads (Suc j))) \<longrightarrow>
                 has_completed runners rid dir reads
                   = (Inr True, Suc (Suc k), 5 * of_nat k))
          \<and> ((\<forall>k<5. \<not> job_state_file_done (reads (Suc k))) \<longrightarrow>
                 has_completed runners rid dir reads
                   = (Inl (raise_exn RunnerError (runner_error_message rid dir)), 6, 25)))
       \<and> fst (snd (has_completed runners rid dir reads)) \<le> 6
       \<and> (fst (has_completed runners rid dir reads) = Inr True \<longleftrightarrow>
            completion_table (job_state_file_done (reads 0)) b = Some Complete
            \<or> (completion_table (job_state_file_done (reads 0)) b = Some Retry_then_fail
               \<and> (\<exists>k<5. job_state_file_done (reads (Suc k)))))
       \<and> (\<exists>r. rid = Some r \<and> runner_error_message rid dir =
             ''Runner claims job '' @ r @ '' is complete, but '' @
             ''job-state file in job directory ('' @ str_opt dir @ '') claims it '' @
             ''is not. This usually means the underlying batch system '' @
             ''(e.g. SGE) job failed - e.g. a node went down.'')"
proof -
  let ?d = "job_state_file_done (reads 0)"
  let ?h = "has_completed runners rid dir reads"
  note hc = has_completed_unfold [OF assms, of dir reads]
  obtain r n t where rt: "retry_state_file 5 reads 1 0 = (r, n, t)"
    using prod_cases3 by blast
  have rt': "retry_state_file 5 reads (Suc 0) 0 = (r, n, t)"
    using rt by simp
  have n6: "n \<le> 6"
    using retry_reads_bound [of 5 reads 1 0] rt by simp
  have r_iff: "r \<longleftrightarrow> (\<exists>k<5. job_state_file_done (reads (Suc k)))"
    using retry_true_iff [of 5 reads 1 0] rt by simp
  have p1: "completion_table ?d b = Some Complete \<longrightarrow> ?h = (Inr True, 1, 0)"
    by (simp add: completion_table_Complete hc)
  have p2: "completion_table ?d b = Some Not_yet \<longrightarrow> ?h = (Inr False, 1, 0)"
    by (simp add: completion_table_Not_yet hc)
  have p3a: "\<forall>k<5. job_state_file_done (reads (Suc k))
                    \<and> (\<forall>j<k. \<not> job_state_file_done (reads (Suc j))) \<longrightarrow>
                 ?h = (Inr True, Suc (Suc k), 5 * of_nat k)"
    if t: "completion_table ?d b = Some Retry_then_fail"
  proof (intro allI impI)
    fix k :: nat
    assume k: "k < 5"
      and dn: "job_state_file_done (reads (Suc k))
               \<and> (\<forall>j<k. \<not> job_state_file_done (reads (Suc j)))"
    have "retry_state_file 5 reads 1 0
            = (True, Suc (1 + k), 0 + state_file_wait_time * of_nat k)"
      using k dn by (intro retry_first_success) simp_all
    with rt have "r = True" "n = Suc (Suc k)" "t = 5 * of_nat k"
      by (simp_all add: state_file_wait_time_def)
    moreover have "b = Some True" "\<not> ?d"
      using t by (simp_all add: completion_table_Retry)
    ultimately show "?h = (Inr True, Suc (Suc k), 5 * of_nat k)"
      using has_completed_retry [of runners rid reads r n t dir] assms rt by simp
  qed
  have p3b: "(\<forall>k<5. \<not> job_state_file_done (reads (Suc k))) \<longrightarrow>
               ?h = (Inl (raise_exn RunnerError (runner_error_message rid dir)), 6, 25)"
    if t: "completion_table ?d b = Some Retry_then_fail"
  proof
    assume nn: "\<forall>k<5. \<not> job_state_file_done (reads (Suc k))"
    have "retry_state_file 5 reads 1 0
            = (False, 1 + 5, 0 + state_file_wait_time * of_nat 5)"
      using nn by (intro retry_all_fail) simp
    with rt have "r = False" "n = 6" "t = 25"
      by (simp_all add: state_file_wait_time_def)
    moreover have "b = Some True" "\<not> ?d"
      using t by (simp_all add: completion_table_Retry)
    ultimately show "?h = (Inl (raise_exn RunnerError (runner_error_message rid dir)), 6, 25)"
      using has_completed_retry [of runners rid reads r n t dir] assms rt by simp
  qed
  have p3: "completion_table ?d b = Some Retry_then_fail \<longrightarrow>
            (\<forall>k<5. job_state_file_done (reads (Suc k))
                    \<and> (\<forall>j<k. \<not> job_state_file_done (reads (Suc j))) \<longrightarrow>
                 ?h = (Inr True, Suc (Suc k), 5 * of_nat k))
          \<and> ((\<forall>k<5. \<not> job_state_file_done (reads (Suc k))) \<longrightarrow>
                 ?h = (Inl (raise_exn RunnerError (runner_error_message rid dir)), 6, 25))"
  proof (intro impI conjI)
    assume t: "completion_table ?d b = Some Retry_then_fail"
    show "\<forall>k<5. job_state_file_done (reads (Suc k))
                    \<and> (\<forall>j<k. \<not> job_state_file_done (reads (Suc j))) \<longrightarrow>
                 ?h = (Inr True, Suc (Suc k), 5 * of_nat k)"
      by (rule p3a [OF t])
    assume nn: "\<forall>k<5. \<not> job_state_file_done (reads (Suc k))"
    show "?h = (Inl (raise_exn RunnerError (runner_error_message rid dir)), 6, 25)"
      using p3b [OF t] nn by blast
  qed
  have p4: "fst (snd ?h) \<le> 6"
    using n6 by (cases r) (simp_all add: hc rt')
  have p5: "fst ?h = Inr True \<longleftrightarrow>
            completion_table ?d b = Some Complete
            \<or> (completion_table ?d b = Some Retry_then_fail
               \<and> (\<exists>k<5. job_state_file_done (reads (Suc k))))"
    unfolding completion_table_Complete completion_table_Retry r_iff [symmetric]
    by (cases r) (auto simp: hc rt')
  have p6: "\<exists>r. rid = Some r \<and> runner_error_message rid dir =
             ''Runner claims job '' @ r @ '' is complete, but '' @
             ''job-state file in job directory ('' @ str_opt dir @ '') claims it '' @
             ''is not. This usually means the underlying batch system '' @
             ''(e.g. SGE) job failed - e.g. a node went down.''"
    using runner_done_Some [OF assms]
    by (auto simp: runner_error_message_def str_opt_def)
  from p1 p2 p3 p4 p5 p6 show ?thesis by (intro conjI)
qed

text \<open>
  Claim C10. When the job-state file reads DONE but the runner reports the job
  as still running (\<^verbatim>\<open>_check_completed\<close> returns \<^verbatim>\<open>False\<close>),
  \<^verbatim>\<open>Job._has_completed\<close> returns \<^verbatim>\<open>False\<close> after the one reading, without sleeping
  and without an exception; the table of the specification has no row for
  this case.
\<close>

theorem has_completed_done_but_running:
  assumes "runner_done runners rid = Inr (Some False)"
      and "job_state_file_done (reads 0)"
  shows "has_completed runners rid dir reads = (Inr False, 1, 0)
       \<and> completion_table (job_state_file_done (reads 0)) (Some False) = None"
  using assms by (simp add: has_completed_def completion_table_def)


theorem has_completed_table_witness:
  "runner_done [''qb3sge'' \<mapsto> (\<lambda>jobid. Some True)] (Some ''qb3sge:17'') = Inr (Some True)
   \<and> completion_table (job_state_file_done None) (Some True) = Some Retry_then_fail
   \<and> has_completed [''qb3sge'' \<mapsto> (\<lambda>jobid. Some True)] (Some ''qb3sge:17'')
        (Some ''/run/j1'') (\<lambda>n. None)
      = (Inl (raise_exn RunnerError
               (runner_error_message (Some ''qb3sge:17'') (Some ''/run/j1''))), 6, 25)
   \<and> completion_table (job_state_file_done (Some (''DONE'' @ [CHR 0x0A]))) (Some True)
      = Some Complete
   \<and> has_completed [''qb3sge'' \<mapsto> (\<lambda>jobid. Some True)] (Some ''qb3sge:17'')
        (Some ''/run/j1'') (\<lambda>n. Some (''DONE'' @ [CHR 0x0A]))
      = (Inr True, 1, 0)
   \<and> has_completed [''qb3sge'' \<mapsto> (\<lambda>jobid. Some True)] (Some ''qb3sge:17'')
        (Some ''/run/j1'') (\<lambda>n. if n = 3 then Some ''DONE'' else None)
      = (Inr True, 4, 10)"
proof -
  have rd: "runner_done [''qb3sge'' \<mapsto> (\<lambda>jobid. Some True)] (Some ''qb3sge:17'')
              = Inr (Some True)"
    by (simp add: runner_done_def)
  have d0: "\<not> job_state_file_done None"
    by (simp add: job_state_file_done_def)
  have d1: "job_state_file_done (Some (''DONE'' @ [CHR 0x0A]))"
    by (simp add: job_state_file_done_def rstrip_def)
  have d2: "job_state_file_done (Some ''DONE'')"
    by (simp add: job_state_file_done_def rstrip_def)
  have t0: "completion_table False (Some True) = Some Retry_then_fail"
    by (simp add: completion_table_def)
  have t1: "completion_table True (Some True) = Some Complete"
    by (simp add: completion_table_def)
  have a: "has_completed [''qb3sge'' \<mapsto> (\<lambda>jobid. Some True)] (Some ''qb3sge:17'')
        (Some ''/run/j1'') (\<lambda>n. None)
      = (Inl (raise_exn RunnerError
               (runner_error_message (Some ''qb3sge:17'') (Some ''/run/j1''))), 6, 25)"
    using has_completed_table [OF rd, of "\<lambda>n. None" "Some ''/run/j1''"] d0 t0
    by simp
  have b: "has_completed [''qb3sge'' \<mapsto> (\<lambda>jobid. Some True)] (Some ''qb3sge:17'')
        (Some ''/run/j1'') (\<lambda>n. Some (''DONE'' @ [CHR 0x0A]))
      = (Inr True, 1, 0)"
    using has_completed_table [OF rd, of "\<lambda>n. Some (''DONE'' @ [CHR 0x0A])" "Some ''/run/j1''"]
          d1 t1
    by simp
  have c: "has_completed [''qb3sge'' \<mapsto> (\<lambda>jobid. Some True)] (Some ''qb3sge:17'')
        (Some ''/run/j1'') (\<lambda>n. if n = 3 then Some ''DONE'' else None)
      = (Inr True, 4, 10)"
  proof -
    define reads :: "nat \<Rightarrow> string option"
      where "reads = (\<lambda>n. if n = 3 then Some ''DONE'' else None)"
    have t: "completion_table (job_state_file_done (reads 0)) (Some True)
               = Some Retry_then_fail"
      using d0 t0 by (simp add: reads_def)
    have A: "\<forall>k<5. job_state_file_done (reads (Suc k))
                    \<and> (\<forall>j<k. \<not> job_state_file_done (reads (Suc j))) \<longrightarrow>
              has_completed [''qb3sge'' \<mapsto> (\<lambda>jobid. Some True)] (Some ''qb3sge:17'')
                 (Some ''/run/j1'') reads = (Inr True, Suc (Suc k), 5 * of_nat k)"
      using has_completed_table [OF rd, of reads "Some ''/run/j1''"] t by blast
    have B1: "job_state_file_done (reads (Suc 2))"
      using d2 by (simp add: reads_def)
    have B2: "\<forall>j<2. \<not> job_state_file_done (reads (Suc j))"
      using d0 by (simp add: reads_def)
    have "has_completed [''qb3sge'' \<mapsto> (\<lambda>jobid. Some True)] (Some ''qb3sge:17'')
                 (Some ''/run/j1'') reads = (Inr True, Suc (Suc 2), 5 * of_nat 2)"
      using A [rule_format, of 2] B1 B2 by simp
    then show ?thesis by (simp add: reads_def)
  qed
  show ?thesis using rd d0 d1 t0 t1 a b c by simp
qed

theorem has_completed_done_but_running_witness:
  "runner_done [''qb3sge'' \<mapsto> (\<lambda>jobid. Some False)] (Some ''qb3sge:17'') = Inr (Some False)
   \<and> job_state_file_done (Some ''DONE'')
   \<and> has_completed [''qb3sge'' \<mapsto> (\<lambda>jobid. Some False)] (Some ''qb3sge:17'')
        (Some ''/run/j1'') (\<lambda>n. Some ''DONE'')
      = (Inr False, 1, 0)"
proof -
  have rd: "runner_done [''qb3sge'' \<mapsto> (\<lambda>jobid. Some False)] (Some ''qb3sge:17'')
              = Inr (Some False)"
    by (simp add: runner_done_def)
  have d: "job_state_file_done (Some ''DONE'')"
    by (simp add: job_state_file_done_def rstrip_def)
  show ?thesis
    using has_completed_done_but_running
            [OF rd, of "\<lambda>n. Some ''DONE''" "Some ''/run/j1''"] rd d
    by simp
qed


subsection \<open>Periodic actions\<close>

text \<open>
  Claim C9, as amended. \<^verbatim>\<open>get_time_to_next(now)\<close> returns
  \<open>max(0, last + interval - now)\<close>. \<^verbatim>\<open>try_action(now)\<close> does not look at its
  argument: it reads \<^verbatim>\<open>time.time()\<close> and calls the callback if and only if that
  reading exceeds \<open>last + interval\<close>; when the callback returns, \<open>last\<close> becomes
  a further reading of the clock, taken after the callback; when the callback
  raises, the exception propagates and \<open>last\<close> keeps its value; when the callback
  is not called, nothing changes but the clock reading consumed.
\<close>

theorem try_action_wall_clock:
  "get_time_to_next pa timenow = max 0 (last_time pa + interval pa - timenow)
   \<and> (clock w (ticks w) > last_time pa + interval pa \<longrightarrow>
        (\<forall>w2. meth pa (w\<lparr>ticks := Suc (ticks w)\<rparr>) = (None, w2) \<longrightarrow>
              try_action pa timenow w
                = (None, pa\<lparr>last_time := clock w2 (ticks w2)\<rparr>,
                   w2\<lparr>ticks := Suc (ticks w2)\<rparr>))
      \<and> (\<forall>e w2. meth pa (w\<lparr>ticks := Suc (ticks w)\<rparr>) = (Some e, w2) \<longrightarrow>
              try_action pa timenow w = (Some e, pa, w2)))
   \<and> (\<not> clock w (ticks w) > last_time pa + interval pa \<longrightarrow>
        try_action pa timenow w = (None, pa, w\<lparr>ticks := Suc (ticks w)\<rparr>))"
  by (simp add: get_time_to_next_def try_action_def time_time_def reset_def)

theorem try_action_wall_clock_witness:
  "get_time_to_next \<lparr>interval = 10, meth = ping, last_time = 95\<rparr> 100 = 5
   \<and> clock example_world (ticks example_world) > 0 + 10
   \<and> outbox (snd (snd (try_action \<lparr>interval = 10, meth = ping, last_time = 0\<rparr> 100
                          example_world)))
       = [\<lparr>rcpt = [], sender = [], subject = ''ping'', body = []\<rparr>]
   \<and> last_time (fst (snd (try_action \<lparr>interval = 10, meth = ping, last_time = 0\<rparr> 100
                          example_world))) = 101
   \<and> \<not> clock example_world (ticks example_world) > 95 + 10
   \<and> outbox (snd (snd (try_action \<lparr>interval = 10, meth = ping, last_time = 95\<rparr> 100
                          example_world))) = []
   \<and> last_time (fst (snd (try_action \<lparr>interval = 10, meth = ping, last_time = 95\<rparr> 100
                          example_world))) = 95"
  using try_action_wall_clock
          [of "\<lparr>interval = 10, meth = ping, last_time = 95\<rparr>" 100 example_world]
        try_action_wall_clock
          [of "\<lparr>interval = 10, meth = ping, last_time = 0\<rparr>" 100 example_world]
  by (simp add: example_world_def ping_def)

text \<open>
  The claim as stated fails in both directions. With \<open>last = 0\<close>, \<open>interval = 10\<close>
  and the wall clock at 100, \<^verbatim>\<open>try_action(0)\<close> calls the callback although \<open>0 > 10\<close>
  is false; with \<open>last = 95\<close>, \<^verbatim>\<open>try_action(200)\<close> does not call it although
  \<open>200 > 105\<close>.
\<close>

theorem try_action_counterexample:
  "\<not> ((0::rat) > 0 + 10)
   \<and> outbox (snd (snd (try_action \<lparr>interval = 10, meth = ping, last_time = 0\<rparr> 0
                          example_world)))
       = [\<lparr>rcpt = [], sender = [], subject = ''ping'', body = []\<rparr>]
   \<and> (200::rat) > 95 + 10
   \<and> outbox (snd (snd (try_action \<lparr>interval = 10, meth = ping, last_time = 95\<rparr> 200
                          example_world))) = []"
  by (simp add: try_action_def time_time_def reset_def example_world_def ping_def)


subsection \<open>The transition protocol\<close>

lemma setitem_directory [simp]:
  "directory (dict (setitem directory directory_update v m)) = v"
  "name (dict (setitem directory directory_update v m)) = name (dict m)"
  by (simp_all add: setitem_def)

lemma rmtree_None:
  "rmtree p w = (None, w') \<Longrightarrow>
   \<exists>d. p = Some d \<and> fs w d \<noteq> None \<and> w' = w\<lparr>fs := (fs w)(d := None)\<rparr>"
  by (auto simp: rmtree_def split: option.splits)

lemma move_None:
  "move src dst w = (None, w') \<Longrightarrow> src \<noteq> dst \<Longrightarrow>
   fs w src \<noteq> None \<and> fs w dst = None
   \<and> w' = w\<lparr>fs := (fs w)(src := None, dst := fs w src)\<rparr>"
  by (auto simp: move_def split: option.splits if_splits)

lemma set_state_directory_expired:
  assumes "set_state_directory cfg ''EXPIRED'' job w = (None, job', w')"
  shows "jstate job' = jstate job
       \<and> name (dict (metadata job')) = name (dict (metadata job))
       \<and> directory (dict (metadata job')) = None
       \<and> (\<exists>d. directory (dict (metadata job)) = Some d \<and> fs w d \<noteq> None
              \<and> w' = w\<lparr>fs := (fs w)(d := None)\<rparr>)"
proof -
  obtain r w1 where rm: "rmtree (directory (dict (metadata job))) w = (r, w1)"
    by (cases "rmtree (directory (dict (metadata job))) w")
  with assms have r: "r = None"
    by (cases r) (simp_all add: set_state_directory_def)
  with rm assms have j: "job' = job\<lparr>metadata := setitem directory directory_update None (metadata job)\<rparr>"
      and w: "w' = w1"
    by (simp_all add: set_state_directory_def)
  from rmtree_None [OF rm [unfolded r]] j w show ?thesis by auto
qed

lemma set_state_directory_other:
  assumes "set_state_directory cfg st job w = (None, job', w')" and "st \<noteq> ''EXPIRED''"
  shows "jstate job' = jstate job
       \<and> name (dict (metadata job')) = name (dict (metadata job))
       \<and> (directory (dict (metadata job)) = None \<longrightarrow> job' = job \<and> w' = w)
       \<and> (\<forall>cur. directory (dict (metadata job)) = Some cur \<longrightarrow>
            (\<exists>t. target_dir cfg st job = Some t
               \<and> directory (dict (metadata job')) = Some t
               \<and> (t = cur \<longrightarrow> job' = job \<and> w' = w)
               \<and> (t \<noteq> cur \<longrightarrow> fs w cur \<noteq> None \<and> fs w t = None
                     \<and> w' = w\<lparr>fs := (fs w)(cur := None, t := fs w cur)\<rparr>)))"
proof (cases "directory (dict (metadata job))")
  case None
  with assms show ?thesis by (simp add: set_state_directory_def)
next
  case (Some cur)
  show ?thesis
  proof (cases "directories cfg st")
    case None
    with assms Some show ?thesis by (simp add: set_state_directory_def)
  next
    case (Some c)
    let ?t = "normpath (path_join c (name (dict (metadata job))))"
    have td: "target_dir cfg st job = Some ?t"
      using Some by (simp add: target_dir_def)
    show ?thesis
    proof (cases "?t = cur")
      case True
      with assms \<open>directory (dict (metadata job)) = Some cur\<close> Some td show ?thesis
        by (simp add: set_state_directory_def)
    next
      case False
      obtain r w1 where mv: "move cur ?t w = (r, w1)" by (cases "move cur ?t w")
      with assms \<open>directory (dict (metadata job)) = Some cur\<close> Some False
      have r: "r = None"
        by (cases r) (simp_all add: set_state_directory_def)
      with mv assms \<open>directory (dict (metadata job)) = Some cur\<close> Some False
      have j: "job' = job\<lparr>metadata := setitem directory directory_update (Some ?t) (metadata job)\<rparr>"
        and w: "w' = w1"
        by (simp_all add: set_state_directory_def)
      from False have ne: "cur \<noteq> ?t" by auto
      from move_None [OF mv [unfolded r] ne] j w td False
        \<open>directory (dict (metadata job)) = Some cur\<close>
      show ?thesis by auto
    qed
  qed
qed

lemma transition_legal_aux:
  "transition s st = (None, s') \<Longrightarrow> s' = st \<and> (legal_table s st \<or> st = ''FAILED'')"
  by (auto simp: transition_def Let_def member_valid_transitions split: if_splits)

lemma change_job_state_None:
  assumes "change_job_state m old new w = (None, m', w')"
  shows "dict m' = dict m \<and> fs w' = fs w \<and> db_up w
       \<and> db_table w' = map (\<lambda>r. if name (cols r) = name (dict m)
                       then \<lparr>cols = dict m, state = new\<rparr> else r) (db_table w)"
  using assms by (auto simp: change_job_state_def mark_synced_def split: if_splits)

lemma internal_set_state_None:
  assumes "internal_set_state cfg st job w = (None, job', w')"
  shows "\<exists>job1 w1. set_state_directory cfg st (job\<lparr>jstate := st\<rparr>) w = (None, job1, w1)
          \<and> (legal_table (jstate job) st \<or> st = ''FAILED'')
          \<and> jstate job' = st
          \<and> dict (metadata job') = dict (metadata job1)
          \<and> fs w' = fs w1
          \<and> db_table w' = map (\<lambda>r. if name (cols r) = name (dict (metadata job1))
                       then \<lparr>cols = dict (metadata job1), state = st\<rparr> else r) (db_table w1)"
proof -
  obtain r s where tr: "transition (jstate job) st = (r, s)"
    by (cases "transition (jstate job) st")
  with assms have r: "r = None"
    by (cases r) (simp_all add: internal_set_state_def Let_def)
  with tr have s: "s = st" and legal: "legal_table (jstate job) st \<or> st = ''FAILED''"
    using transition_legal_aux by blast+
  obtain r1 job1 w1 where sd: "set_state_directory cfg st (job\<lparr>jstate := st\<rparr>) w = (r1, job1, w1)"
    using prod_cases3 by blast
  with assms tr r s have r1: "r1 = None"
    by (cases r1) (simp_all add: internal_set_state_def Let_def)
  obtain r2 m2 w2 where cj: "change_job_state (metadata job1) (jstate job) st w1 = (r2, m2, w2)"
    using prod_cases3 by blast
  with assms tr r s sd r1 have r2: "r2 = None" and j: "job' = job1\<lparr>metadata := m2\<rparr>" and w: "w' = w2"
    by (simp_all add: internal_set_state_def Let_def)
  have js: "jstate job1 = st"
    using sd r1 set_state_directory_expired [of cfg "job\<lparr>jstate := st\<rparr>" w job1 w1]
          set_state_directory_other [of cfg st "job\<lparr>jstate := st\<rparr>" w job1 w1]
    by (cases "st = ''EXPIRED''") auto
  from change_job_state_None [OF cj [unfolded r2]] sd r1 j w legal js
  show ?thesis by auto
qed


lemma target_dir_cong:
  "name (dict (metadata j1)) = name (dict (metadata j2)) \<Longrightarrow>
   target_dir cfg st j1 = target_dir cfg st j2"
  by (simp add: target_dir_def)

lemma internal_set_state_facts:
  assumes "internal_set_state cfg st job w = (None, job', w')"
  shows "jstate job' = st"
    and "name (dict (metadata job')) = name (dict (metadata job))"
    and "\<forall>d. directory (dict (metadata job')) = Some d \<longrightarrow> target_dir cfg st job' = Some d"
    and "st = ''EXPIRED'' \<longrightarrow> directory (dict (metadata job')) = None
           \<and> (\<exists>d. directory (dict (metadata job)) = Some d \<and> fs w d \<noteq> None
                  \<and> fs w' = (fs w)(d := None))"
    and "st \<noteq> ''EXPIRED'' \<longrightarrow>
           (\<forall>cur t. directory (dict (metadata job)) = Some cur
                    \<and> target_dir cfg st job = Some t \<and> t \<noteq> cur \<longrightarrow>
               fs w cur \<noteq> None \<and> fs w t = None
               \<and> fs w' = (fs w)(cur := None, t := fs w cur)
               \<and> directory (dict (metadata job')) = Some t)"
    and "st \<noteq> ''EXPIRED'' \<longrightarrow>
           (directory (dict (metadata job)) = None
            \<or> directory (dict (metadata job)) = target_dir cfg st job) \<longrightarrow>
           fs w' = fs w \<and> directory (dict (metadata job')) = directory (dict (metadata job))"
    and "\<forall>r \<in> set (db_table w'). name (cols r) = name (dict (metadata job')) \<longrightarrow>
           state r = st \<and> cols r = dict (metadata job')"
proof -
  from internal_set_state_None [OF assms]
  obtain job1 w1 where
        sd: "set_state_directory cfg st (job\<lparr>jstate := st\<rparr>) w = (None, job1, w1)"
    and js: "jstate job' = st"
    and d: "dict (metadata job') = dict (metadata job1)"
    and f: "fs w' = fs w1"
    and t: "db_table w' = map (\<lambda>r. if name (cols r) = name (dict (metadata job1))
                       then \<lparr>cols = dict (metadata job1), state = st\<rparr> else r) (db_table w1)"
    by blast
  let ?j = "job\<lparr>jstate := st\<rparr>"
  have tj: "target_dir cfg st ?j = target_dir cfg st job"
    by (simp add: target_dir_def)
  show "jstate job' = st" by (rule js)
  have n1: "name (dict (metadata job1)) = name (dict (metadata job))"
    using sd set_state_directory_expired [of cfg ?j w job1 w1]
          set_state_directory_other [of cfg st ?j w job1 w1]
    by (cases "st = ''EXPIRED''") auto
  then show n: "name (dict (metadata job')) = name (dict (metadata job))"
    using d by simp
  have tj': "target_dir cfg st job' = target_dir cfg st job"
    using n by (simp add: target_dir_def)
  show "\<forall>d. directory (dict (metadata job')) = Some d \<longrightarrow> target_dir cfg st job' = Some d"
  proof (cases "st = ''EXPIRED''")
    case True
    with sd set_state_directory_expired [of cfg ?j w job1 w1] d show ?thesis by simp
  next
    case False
    from set_state_directory_other [OF sd False] d tj tj' show ?thesis
      by (cases "directory (dict (metadata job))") auto
  qed
  show "st = ''EXPIRED'' \<longrightarrow> directory (dict (metadata job')) = None
           \<and> (\<exists>d. directory (dict (metadata job)) = Some d \<and> fs w d \<noteq> None
                  \<and> fs w' = (fs w)(d := None))"
  proof
    assume e: "st = ''EXPIRED''"
    from sd e set_state_directory_expired [of cfg ?j w job1 w1] d f
    show "directory (dict (metadata job')) = None
           \<and> (\<exists>d. directory (dict (metadata job)) = Some d \<and> fs w d \<noteq> None
                  \<and> fs w' = (fs w)(d := None))"
      by auto
  qed
  show "st \<noteq> ''EXPIRED'' \<longrightarrow>
           (\<forall>cur t. directory (dict (metadata job)) = Some cur
                    \<and> target_dir cfg st job = Some t \<and> t \<noteq> cur \<longrightarrow>
               fs w cur \<noteq> None \<and> fs w t = None
               \<and> fs w' = (fs w)(cur := None, t := fs w cur)
               \<and> directory (dict (metadata job')) = Some t)"
  proof (intro impI allI)
    fix cur t
    assume ne: "st \<noteq> ''EXPIRED''"
       and h: "directory (dict (metadata job)) = Some cur
                    \<and> target_dir cfg st job = Some t \<and> t \<noteq> cur"
    from set_state_directory_other [OF sd ne] h d f tj
    show "fs w cur \<noteq> None \<and> fs w t = None
               \<and> fs w' = (fs w)(cur := None, t := fs w cur)
               \<and> directory (dict (metadata job')) = Some t"
      by auto
  qed
  show "st \<noteq> ''EXPIRED'' \<longrightarrow>
           (directory (dict (metadata job)) = None
            \<or> directory (dict (metadata job)) = target_dir cfg st job) \<longrightarrow>
           fs w' = fs w \<and> directory (dict (metadata job')) = directory (dict (metadata job))"
  proof (intro impI)
    assume ne: "st \<noteq> ''EXPIRED''"
       and h: "directory (dict (metadata job)) = None
            \<or> directory (dict (metadata job)) = target_dir cfg st job"
    from set_state_directory_other [OF sd ne] h d f tj
    show "fs w' = fs w \<and> directory (dict (metadata job')) = directory (dict (metadata job))"
      by (cases "directory (dict (metadata job))") auto
  qed
  show "\<forall>r \<in> set (db_table w'). name (cols r) = name (dict (metadata job')) \<longrightarrow>
           state r = st \<and> cols r = dict (metadata job')"
    using t d by auto
qed

lemma fail_None:
  assumes "fail cfg reason job w = (None, job', w')"
  shows "\<exists>w1. internal_set_state cfg ''FAILED''
                (job\<lparr>metadata := setitem failure failure_update
                                    (Some (failure_text w reason)) (metadata job)\<rparr>) w
              = (None, job', w1)
            \<and> mailer_up w1
            \<and> w' = w1\<lparr>outbox := outbox w1 @
                  [\<lparr>rcpt = [admin_email cfg], sender = admin_email cfg,
                    subject = ''Sali lab '' @ service_name cfg @ '' service: Job '' @
                              name (dict (metadata job')) @ '' FAILED'',
                    body = ''Job '' @ name (dict (metadata job')) @
                           '' failed with the following error:'' @ [CHR 0x0A] @
                           failure_text w reason\<rparr>]\<rparr>"
proof -
  let ?j1 = "job\<lparr>metadata := setitem failure failure_update
                                    (Some (failure_text w reason)) (metadata job)\<rparr>"
  obtain r j2 w1 where iss: "internal_set_state cfg ''FAILED'' ?j1 w = (r, j2, w1)"
    using prod_cases3 by blast
  with assms have r: "r = None"
    by (cases r) (simp_all add: fail_def Let_def)
  from assms iss r show ?thesis
    by (auto simp: fail_def Let_def send_admin_email_def send_email_def
             split: if_splits)
qed

text \<open>
  Claim C2. Whenever \<^verbatim>\<open>Job.__internal_set_state\<close> returns, the job holds the new
  state, the rows of the job in the table hold the new state and the job's
  metadata, and a \<^verbatim>\<open>directory\<close> field that is not \<^verbatim>\<open>None\<close> equals
  \<^verbatim>\<open>normpath(join(config.directories[state], name))\<close>. On the way to EXPIRED the
  directory of the job is removed from the disk with its content and the field
  becomes \<^verbatim>\<open>None\<close>. On the way to another state, when the path for the new state
  differs from the current directory, the directory is renamed (its content
  is then found under the new path, the old path is gone) and the field is
  updated; when it does not differ, or the field is \<^verbatim>\<open>None\<close>, the disk and the
  field are left alone. Whenever \<^verbatim>\<open>Job._set_state\<close> returns, the job holds the
  state asked for or, after a failure that \<^verbatim>\<open>_fail\<close> handled, FAILED, and the
  same equation holds for the state it holds.
\<close>

theorem set_state_directory_invariant:
  "(internal_set_state cfg st job w = (None, job', w') \<longrightarrow>
      jstate job' = st
    \<and> (\<forall>d. directory (dict (metadata job')) = Some d \<longrightarrow> target_dir cfg st job' = Some d)
    \<and> (st = ''EXPIRED'' \<longrightarrow> directory (dict (metadata job')) = None
           \<and> (\<exists>d. directory (dict (metadata job)) = Some d \<and> fs w d \<noteq> None
                  \<and> fs w' = (fs w)(d := None)))
    \<and> (st \<noteq> ''EXPIRED'' \<longrightarrow>
           (\<forall>cur t. directory (dict (metadata job)) = Some cur
                    \<and> target_dir cfg st job = Some t \<and> t \<noteq> cur \<longrightarrow>
               fs w cur \<noteq> None \<and> fs w t = None
               \<and> fs w' = (fs w)(cur := None, t := fs w cur)
               \<and> directory (dict (metadata job')) = Some t))
    \<and> (st \<noteq> ''EXPIRED'' \<longrightarrow>
           (directory (dict (metadata job)) = None
            \<or> directory (dict (metadata job)) = target_dir cfg st job) \<longrightarrow>
           fs w' = fs w \<and> directory (dict (metadata job')) = directory (dict (metadata job)))
    \<and> (\<forall>r \<in> set (db_table w'). name (cols r) = name (dict (metadata job')) \<longrightarrow>
           state r = st \<and> cols r = dict (metadata job')))
  \<and> (set_state cfg st job w = (None, job2, w2) \<longrightarrow>
      (jstate job2 = st \<or> jstate job2 = ''FAILED'')
    \<and> (\<forall>d. directory (dict (metadata job2)) = Some d \<longrightarrow>
           target_dir cfg (jstate job2) job2 = Some d))"
proof (intro conjI impI)
  assume a: "internal_set_state cfg st job w = (None, job', w')"
  note f = internal_set_state_facts [OF a]
  show "jstate job' = st" by (rule f(1))
  show "\<forall>d. directory (dict (metadata job')) = Some d \<longrightarrow> target_dir cfg st job' = Some d"
    by (rule f(3))
  show "\<forall>r \<in> set (db_table w'). name (cols r) = name (dict (metadata job')) \<longrightarrow>
           state r = st \<and> cols r = dict (metadata job')"
    by (rule f(7))
next
  assume a: "internal_set_state cfg st job w = (None, job', w')" and e: "st = ''EXPIRED''"
  from internal_set_state_facts(4) [OF a] e
  show "directory (dict (metadata job')) = None" by blast
  from internal_set_state_facts(4) [OF a] e
  show "\<exists>d. directory (dict (metadata job)) = Some d \<and> fs w d \<noteq> None
                  \<and> fs w' = (fs w)(d := None)" by blast
next
  assume a: "internal_set_state cfg st job w = (None, job', w')" and e: "st \<noteq> ''EXPIRED''"
  from internal_set_state_facts(5) [OF a] e
  show "\<forall>cur t. directory (dict (metadata job)) = Some cur
                    \<and> target_dir cfg st job = Some t \<and> t \<noteq> cur \<longrightarrow>
               fs w cur \<noteq> None \<and> fs w t = None
               \<and> fs w' = (fs w)(cur := None, t := fs w cur)
               \<and> directory (dict (metadata job')) = Some t" by blast
next
  assume a: "internal_set_state cfg st job w = (None, job', w')" and e: "st \<noteq> ''EXPIRED''"
    and h: "directory (dict (metadata job)) = None
            \<or> directory (dict (metadata job)) = target_dir cfg st job"
  from internal_set_state_facts(6) [OF a] e h
  show "fs w' = fs w" by blast
  from internal_set_state_facts(6) [OF a] e h
  show "directory (dict (metadata job')) = directory (dict (metadata job))" by blast
next
  assume a: "set_state cfg st job w = (None, job2, w2)"
  obtain r j1 w1 where iss: "internal_set_state cfg st job w = (r, j1, w1)"
    using prod_cases3 by blast
  have "(jstate job2 = st \<or> jstate job2 = ''FAILED'')
    \<and> (\<forall>d. directory (dict (metadata job2)) = Some d \<longrightarrow>
           target_dir cfg (jstate job2) job2 = Some d)"
  proof (cases r)
    case None
    with a iss have "job2 = j1" by (simp add: set_state_def)
    with internal_set_state_facts(1,3) [OF iss [unfolded None]] show ?thesis by simp
  next
    case (Some e)
    with a iss have "fail cfg e j1 w1 = (None, job2, w2)" by (simp add: set_state_def)
    from fail_None [OF this] obtain w3 where
      "internal_set_state cfg ''FAILED''
         (j1\<lparr>metadata := setitem failure failure_update
                           (Some (failure_text w1 e)) (metadata j1)\<rparr>) w1 = (None, job2, w3)"
      by blast
    from internal_set_state_facts(1,3) [OF this] show ?thesis by simp
  qed
  then show "jstate job2 = st \<or> jstate job2 = ''FAILED''"
    and "\<forall>d. directory (dict (metadata job2)) = Some d \<longrightarrow>
           target_dir cfg (jstate job2) job2 = Some d"
    by blast+
qed


lemmas run_defs =
  internal_set_state_def transition_def valid_transitions_def Let_def
  set_state_directory_def example_job_def example_columns_def example_config_def
  normpath_def path_join_def norm_step_def move_def rmtree_def example_world_jobs_def
  example_world_def example_row_def
  setitem_def change_job_state_def mark_synced_def target_dir_def

theorem set_state_directory_invariant_witness:
  "fst (internal_set_state example_config ''COMPLETED''
          (example_job ''j1'' (Some ''/post/j1'') ''POSTPROCESSING'') example_world_jobs) = None
   \<and> directory (dict (metadata (fst (snd (internal_set_state example_config ''COMPLETED''
          (example_job ''j1'' (Some ''/post/j1'') ''POSTPROCESSING'') example_world_jobs)))))
       = Some ''/done/j1''
   \<and> fs (snd (snd (internal_set_state example_config ''COMPLETED''
          (example_job ''j1'' (Some ''/post/j1'') ''POSTPROCESSING'') example_world_jobs)))
       = (fs example_world_jobs)(''/post/j1'' := None, ''/done/j1'' := Some [''out.txt''])
   \<and> fst (internal_set_state example_config ''EXPIRED''
          (example_job ''j2'' (Some ''/arch/j2'') ''ARCHIVED'') example_world_jobs) = None
   \<and> directory (dict (metadata (fst (snd (internal_set_state example_config ''EXPIRED''
          (example_job ''j2'' (Some ''/arch/j2'') ''ARCHIVED'') example_world_jobs)))))
       = None
   \<and> fs (snd (snd (internal_set_state example_config ''EXPIRED''
          (example_job ''j2'' (Some ''/arch/j2'') ''ARCHIVED'') example_world_jobs)))
       = (fs example_world_jobs)(''/arch/j2'' := None)"
proof -
  let ?j1 = "example_job ''j1'' (Some ''/post/j1'') ''POSTPROCESSING''"
  let ?R1 = "internal_set_state example_config ''COMPLETED'' ?j1 example_world_jobs"
  let ?j2 = "example_job ''j2'' (Some ''/arch/j2'') ''ARCHIVED''"
  let ?R2 = "internal_set_state example_config ''EXPIRED'' ?j2 example_world_jobs"
  have a1: "fst ?R1 = None" by (simp add: run_defs)
  then have b1: "?R1 = (None, fst (snd ?R1), snd (snd ?R1))"
    by (metis prod.collapse)
  have a2: "fst ?R2 = None" by (simp add: run_defs)
  then have b2: "?R2 = (None, fst (snd ?R2), snd (snd ?R2))"
    by (metis prod.collapse)
  have d1: "directory (dict (metadata ?j1)) = Some ''/post/j1''"
    by (simp add: example_job_def example_columns_def)
  have t1: "target_dir example_config ''COMPLETED'' ?j1 = Some ''/done/j1''"
    by (simp add: run_defs)
  have f1: "fs example_world_jobs ''/post/j1'' = Some [''out.txt'']"
    by (simp add: example_world_jobs_def)
  have d2: "directory (dict (metadata ?j2)) = Some ''/arch/j2''"
    by (simp add: example_job_def example_columns_def)
  note T1 = set_state_directory_invariant
              [of example_config "''COMPLETED''" ?j1 example_world_jobs
                  "fst (snd ?R1)" "snd (snd ?R1)", THEN conjunct1, rule_format, OF b1]
  note T2 = set_state_directory_invariant
              [of example_config "''EXPIRED''" ?j2 example_world_jobs
                  "fst (snd ?R2)" "snd (snd ?R2)", THEN conjunct1, rule_format, OF b2]
  from T1 d1 t1 f1 have c1:
    "directory (dict (metadata (fst (snd ?R1)))) = Some ''/done/j1''
     \<and> fs (snd (snd ?R1))
         = (fs example_world_jobs)(''/post/j1'' := None, ''/done/j1'' := Some [''out.txt''])"
    by simp
  from T2 d2 have c2:
    "directory (dict (metadata (fst (snd ?R2)))) = None
     \<and> fs (snd (snd ?R2)) = (fs example_world_jobs)(''/arch/j2'' := None)"
    by simp
  from a1 a2 c1 c2 show ?thesis by simp
qed


subsection \<open>The startup sanity check\<close>

lemma set_state_directory_db_table:
  assumes "set_state_directory cfg st job w = (None, job', w')"
  shows "db_table w' = db_table w"
proof (cases "st = ''EXPIRED''")
  case True
  with assms set_state_directory_expired [of cfg job w job' w'] show ?thesis by auto
next
  case False
  from set_state_directory_other [OF assms False] show ?thesis
    by (cases "directory (dict (metadata job))") (auto split: if_splits)
qed

lemma internal_set_state_db_table:
  assumes "internal_set_state cfg st job w = (None, job', w')"
  shows "db_table w' = map (\<lambda>r. if name (cols r) = name (dict (metadata job))
                       then \<lparr>cols = dict (metadata job'), state = st\<rparr> else r) (db_table w)"
proof -
  from internal_set_state_None [OF assms]
  obtain job1 w1 where
        sd: "set_state_directory cfg st (job\<lparr>jstate := st\<rparr>) w = (None, job1, w1)"
    and d: "dict (metadata job') = dict (metadata job1)"
    and t: "db_table w' = map (\<lambda>r. if name (cols r) = name (dict (metadata job1))
                       then \<lparr>cols = dict (metadata job1), state = st\<rparr> else r) (db_table w1)"
    by blast
  have n: "name (dict (metadata job')) = name (dict (metadata job))"
    by (rule internal_set_state_facts(2) [OF assms])
  from set_state_directory_db_table [OF sd] t d n show ?thesis by simp
qed

lemma fail_db_table:
  assumes "fail cfg reason job w = (None, job', w')"
  shows "name (dict (metadata job')) = name (dict (metadata job))
       \<and> jstate job' = ''FAILED''
       \<and> db_table w' = map (\<lambda>r. if name (cols r) = name (dict (metadata job))
                       then \<lparr>cols = dict (metadata job'), state = ''FAILED''\<rparr> else r)
                           (db_table w)"
proof -
  let ?j1 = "job\<lparr>metadata := setitem failure failure_update
                                    (Some (failure_text w reason)) (metadata job)\<rparr>"
  from fail_None [OF assms] obtain w1 where
        i: "internal_set_state cfg ''FAILED'' ?j1 w = (None, job', w1)"
    and w: "db_table w' = db_table w1"
    by auto
  have n1: "name (dict (metadata ?j1)) = name (dict (metadata job))"
    by (simp add: setitem_def)
  from internal_set_state_db_table [OF i] internal_set_state_facts(1,2) [OF i] w n1
  show ?thesis by simp
qed

lemma job_sanity_check_transient:
  assumes "job_sanity_check cfg job w = (None, job', w')"
      and "jstate job = ''PREPROCESSING'' \<or> jstate job = ''POSTPROCESSING''"
  shows "list_all2 row_kept_or_failed (db_table w) (db_table w')
       \<and> (\<forall>r \<in> set (db_table w'). name (cols r) = name (dict (metadata job)) \<longrightarrow>
             state r = ''FAILED'')"
proof -
  from assms obtain e where f: "fail cfg e job w = (None, job', w')"
    by (auto simp: job_sanity_check_def Let_def)
  from fail_db_table [OF f] have
        n: "name (dict (metadata job')) = name (dict (metadata job))"
    and t: "db_table w' = map (\<lambda>r. if name (cols r) = name (dict (metadata job))
                       then \<lparr>cols = dict (metadata job'), state = ''FAILED''\<rparr> else r)
                           (db_table w)"
    by blast+
  have "list_all2 row_kept_or_failed (db_table w) (db_table w')"
    unfolding t using n
    by (simp add: list_all2_map2 row_kept_or_failed_def list.rel_refl)
  moreover have "\<forall>r \<in> set (db_table w'). name (cols r) = name (dict (metadata job)) \<longrightarrow>
             state r = ''FAILED''"
    unfolding t by auto
  ultimately show ?thesis by blast
qed


lemma row_kept_or_failed_refl: "list_all2 row_kept_or_failed T T"
  by (simp add: list.rel_refl row_kept_or_failed_def)

lemma row_kept_or_failed_trans:
  assumes "list_all2 row_kept_or_failed T1 T2" and "list_all2 row_kept_or_failed T2 T3"
  shows "list_all2 row_kept_or_failed T1 T3"
proof -
  have "list_all2 (row_kept_or_failed OO row_kept_or_failed) T1 T3"
    using assms by (metis list.rel_compp relcomppI)
  then show ?thesis
    by (rule list_all2_mono) (auto simp: row_kept_or_failed_def)
qed

lemma failed_names_kept:
  assumes "list_all2 row_kept_or_failed T T'"
      and "\<forall>r \<in> set T. name (cols r) = n \<longrightarrow> state r = ''FAILED''"
  shows "\<forall>r \<in> set T'. name (cols r) = n \<longrightarrow> state r = ''FAILED''"
proof
  fix r' assume "r' \<in> set T'"
  then obtain i where i: "i < length T'" "T' ! i = r'" by (auto simp: in_set_conv_nth)
  from assms(1) i have k: "row_kept_or_failed (T ! i) r'" and l: "i < length T"
    by (auto simp: list_all2_conv_all_nth)
  from l have "T ! i \<in> set T" by simp
  with assms(2) k show "name (cols r') = n \<longrightarrow> state r' = ''FAILED''"
    by (auto simp: row_kept_or_failed_def)
qed

lemma sanity_loop_transient:
  assumes "sanity_loop cfg jobs w = (None, w')"
      and "\<forall>j \<in> set jobs. jstate j = ''PREPROCESSING'' \<or> jstate j = ''POSTPROCESSING''"
  shows "list_all2 row_kept_or_failed (db_table w) (db_table w')
       \<and> (\<forall>r \<in> set (db_table w').
             name (cols r) \<in> (\<lambda>j. name (dict (metadata j))) ` set jobs \<longrightarrow>
             state r = ''FAILED'')"
  using assms
proof (induction jobs arbitrary: w)
  case Nil
  then show ?case by (simp add: row_kept_or_failed_refl)
next
  case (Cons j jobs)
  obtain r j' w1 where c: "job_sanity_check cfg j w = (r, j', w1)"
    using prod_cases3 by blast
  with Cons.prems(1) have r: "r = None" by (cases r) simp_all
  with c Cons.prems(1) have l: "sanity_loop cfg jobs w1 = (None, w')" by simp
  have tj: "jstate j = ''PREPROCESSING'' \<or> jstate j = ''POSTPROCESSING''"
    using Cons.prems(2) by simp
  from job_sanity_check_transient [OF c [unfolded r] tj] have
        a1: "list_all2 row_kept_or_failed (db_table w) (db_table w1)"
    and a2: "\<forall>r \<in> set (db_table w1). name (cols r) = name (dict (metadata j)) \<longrightarrow>
               state r = ''FAILED''"
    by blast+
  from Cons.IH [OF l] Cons.prems(2) have
        b1: "list_all2 row_kept_or_failed (db_table w1) (db_table w')"
    and b2: "\<forall>r \<in> set (db_table w').
               name (cols r) \<in> (\<lambda>j. name (dict (metadata j))) ` set jobs \<longrightarrow>
               state r = ''FAILED''"
    by simp_all
  have c1: "list_all2 row_kept_or_failed (db_table w) (db_table w')"
    by (rule row_kept_or_failed_trans [OF a1 b1])
  have c2: "\<forall>r \<in> set (db_table w'). name (cols r) = name (dict (metadata j)) \<longrightarrow>
               state r = ''FAILED''"
    by (rule failed_names_kept [OF b1 a2])
  from c1 c2 b2 show ?case by auto
qed

lemma get_all_jobs_in_state_Inr:
  assumes "get_all_jobs_in_state st w = Inr jobs"
  shows "(\<forall>j \<in> set jobs. jstate j = st)
       \<and> (\<lambda>j. name (dict (metadata j))) ` set jobs
           = (\<lambda>r. name (cols r)) ` {r \<in> set (db_table w). state r = st}"
proof (cases "filter (\<lambda>r. state r = st) (db_table w) = []")
  case True
  with assms have "jobs = []"
    by (auto simp: get_all_jobs_in_state_def Let_def split: if_splits)
  moreover from True have "{r \<in> set (db_table w). state r = st} = {}"
    by (auto simp: filter_empty_conv)
  ultimately show ?thesis by simp
next
  case False
  with assms have
    "jobs = map (\<lambda>r. \<lparr>metadata = \<lparr>dict = cols r, needs_sync = False\<rparr>, jstate = st\<rparr>)
                (filter (\<lambda>r. state r = st) (db_table w))"
    by (auto simp: get_all_jobs_in_state_def Let_def JobState_init_def
             split: if_splits sum.splits)
  then show ?thesis by (auto simp: image_iff)
qed

lemma sweep_state:
  assumes "get_all_jobs_in_state st w = Inr jobs"
      and "sanity_loop cfg jobs w = (None, w')"
      and "st = ''PREPROCESSING'' \<or> st = ''POSTPROCESSING''"
  shows "list_all2 row_kept_or_failed (db_table w) (db_table w')"
    and "\<forall>i < length (db_table w). state (db_table w ! i) = st \<longrightarrow>
           state (db_table w' ! i) = ''FAILED''"
proof -
  from get_all_jobs_in_state_Inr [OF assms(1)] have
        js: "\<forall>j \<in> set jobs. jstate j = st"
    and ns: "(\<lambda>j. name (dict (metadata j))) ` set jobs
           = (\<lambda>r. name (cols r)) ` {r \<in> set (db_table w). state r = st}"
    by blast+
  from js assms(3) have
    "\<forall>j \<in> set jobs. jstate j = ''PREPROCESSING'' \<or> jstate j = ''POSTPROCESSING''"
    by auto
  from sanity_loop_transient [OF assms(2) this] have
        k: "list_all2 row_kept_or_failed (db_table w) (db_table w')"
    and f: "\<forall>r \<in> set (db_table w').
             name (cols r) \<in> (\<lambda>j. name (dict (metadata j))) ` set jobs \<longrightarrow>
             state r = ''FAILED''"
    by blast+
  show "list_all2 row_kept_or_failed (db_table w) (db_table w')" by (rule k)
  show "\<forall>i < length (db_table w). state (db_table w ! i) = st \<longrightarrow>
           state (db_table w' ! i) = ''FAILED''"
  proof (intro allI impI)
    fix i assume i: "i < length (db_table w)" and s: "state (db_table w ! i) = st"
    from k i have i': "i < length (db_table w')"
      and n: "name (cols (db_table w' ! i)) = name (cols (db_table w ! i))"
      by (auto simp: list_all2_conv_all_nth row_kept_or_failed_def)
    from i s have "db_table w ! i \<in> {r \<in> set (db_table w). state r = st}" by simp
    then have "name (cols (db_table w ! i))
                 \<in> (\<lambda>j. name (dict (metadata j))) ` set jobs"
      unfolding ns by (rule imageI)
    with n f i' show "state (db_table w' ! i) = ''FAILED''"
      by (metis nth_mem)
  qed
qed


text \<open>
  Claim C4. When \<^verbatim>\<open>WebService._sanity_check\<close> returns, which is when the daemon
  goes on to start, no row of the job table is in state PREPROCESSING or
  POSTPROCESSING: every row that was in one of them is in state FAILED, and
  every other row has kept its state or, sharing its name with such a row, is
  FAILED as well. (When the check raises, because \<^verbatim>\<open>_fail\<close> raised or the
  database is down, \<^verbatim>\<open>do_all_processing\<close> hands the exception to
  \<^verbatim>\<open>_handle_fatal_error\<close> and the daemon does not start.)
\<close>

theorem sanity_check_sweeps_transient:
  assumes "ws_sanity_check cfg w = (None, w')"
  shows "(\<forall>r \<in> set (db_table w').
            state r \<noteq> ''PREPROCESSING'' \<and> state r \<noteq> ''POSTPROCESSING'')
       \<and> length (db_table w') = length (db_table w)
       \<and> (\<forall>i < length (db_table w).
            name (cols (db_table w' ! i)) = name (cols (db_table w ! i))
            \<and> (state (db_table w ! i) = ''PREPROCESSING''
                 \<or> state (db_table w ! i) = ''POSTPROCESSING'' \<longrightarrow>
               state (db_table w' ! i) = ''FAILED'')
            \<and> (state (db_table w' ! i) = state (db_table w ! i)
                 \<or> state (db_table w' ! i) = ''FAILED''))"
proof -
  from assms obtain jobs where g1: "get_all_jobs_in_state ''PREPROCESSING'' w = Inr jobs"
    by (cases "get_all_jobs_in_state ''PREPROCESSING'' w")
       (simp_all add: ws_sanity_check_def)
  obtain r1 w1 where l1: "sanity_loop cfg jobs w = (r1, w1)"
    by (cases "sanity_loop cfg jobs w")
  with assms g1 have r1: "r1 = None"
    by (cases r1) (simp_all add: ws_sanity_check_def)
  from assms g1 l1 r1 obtain jobs' where
    g2: "get_all_jobs_in_state ''POSTPROCESSING'' w1 = Inr jobs'"
    by (cases "get_all_jobs_in_state ''POSTPROCESSING'' w1")
       (simp_all add: ws_sanity_check_def)
  from assms g1 l1 r1 g2 have l2: "sanity_loop cfg jobs' w1 = (None, w')"
    by (simp add: ws_sanity_check_def)
  note s1 = sweep_state [OF g1 l1 [unfolded r1]]
  note s2 = sweep_state [OF g2 l2]
  have k1: "list_all2 row_kept_or_failed (db_table w) (db_table w1)" using s1(1) by simp
  have k2: "list_all2 row_kept_or_failed (db_table w1) (db_table w')" using s2(1) by simp
  have f1: "\<forall>i < length (db_table w). state (db_table w ! i) = ''PREPROCESSING'' \<longrightarrow>
              state (db_table w1 ! i) = ''FAILED''" using s1(2) by simp
  have f2: "\<forall>i < length (db_table w1). state (db_table w1 ! i) = ''POSTPROCESSING'' \<longrightarrow>
              state (db_table w' ! i) = ''FAILED''" using s2(2) by simp
  have len1: "length (db_table w1) = length (db_table w)"
    using k1 by (simp add: list_all2_lengthD)
  have len2: "length (db_table w') = length (db_table w1)"
    using k2 by (simp add: list_all2_lengthD)
  have step1: "row_kept_or_failed (db_table w ! i) (db_table w1 ! i)"
    if "i < length (db_table w)" for i
    using k1 that by (simp add: list_all2_conv_all_nth)
  have step2: "row_kept_or_failed (db_table w1 ! i) (db_table w' ! i)"
    if "i < length (db_table w)" for i
    using k2 that len1 by (simp add: list_all2_conv_all_nth)
  have ne: "''FAILED'' \<noteq> ''PREPROCESSING''" "''FAILED'' \<noteq> ''POSTPROCESSING''"
           "''PREPROCESSING'' \<noteq> ''POSTPROCESSING''"
    by simp_all
  have per_row:
    "name (cols (db_table w' ! i)) = name (cols (db_table w ! i))
     \<and> (state (db_table w ! i) = ''PREPROCESSING''
          \<or> state (db_table w ! i) = ''POSTPROCESSING'' \<longrightarrow>
        state (db_table w' ! i) = ''FAILED'')
     \<and> (state (db_table w' ! i) = state (db_table w ! i)
          \<or> state (db_table w' ! i) = ''FAILED'')
     \<and> state (db_table w' ! i) \<noteq> ''PREPROCESSING''
     \<and> state (db_table w' ! i) \<noteq> ''POSTPROCESSING''"
    if i: "i < length (db_table w)" for i
  proof -
    let ?a = "db_table w ! i" and ?b = "db_table w1 ! i" and ?c = "db_table w' ! i"
    from step1 [OF i] have ab: "name (cols ?b) = name (cols ?a)"
      "state ?b = state ?a \<or> state ?b = ''FAILED''"
      by (simp_all add: row_kept_or_failed_def)
    from step2 [OF i] have bc: "name (cols ?c) = name (cols ?b)"
      "state ?c = state ?b \<or> state ?c = ''FAILED''"
      by (simp_all add: row_kept_or_failed_def)
    from f1 i have p1: "state ?a = ''PREPROCESSING'' \<longrightarrow> state ?b = ''FAILED''" by simp
    from f2 i len1 have p2: "state ?b = ''POSTPROCESSING'' \<longrightarrow> state ?c = ''FAILED''" by simp
    from ab bc p1 p2 ne show ?thesis by metis
  qed
  have all_rows: "\<forall>r \<in> set (db_table w').
            state r \<noteq> ''PREPROCESSING'' \<and> state r \<noteq> ''POSTPROCESSING''"
  proof
    fix r assume "r \<in> set (db_table w')"
    then obtain i where "i < length (db_table w')" "db_table w' ! i = r"
      by (auto simp: in_set_conv_nth)
    with per_row [of i] len1 len2
    show "state r \<noteq> ''PREPROCESSING'' \<and> state r \<noteq> ''POSTPROCESSING''" by auto
  qed
  from all_rows len1 len2 per_row show ?thesis by simp
qed


lemmas sweep_defs =
  ws_sanity_check_def get_all_jobs_in_state_def JobState_init_def valid_states_def
  job_sanity_check_def fail_def failure_text_def send_admin_email_def send_email_def
  raise_exn_def

theorem sanity_check_sweeps_transient_witness:
  "fst (ws_sanity_check example_config example_world_jobs) = None
   \<and> map state (db_table example_world_jobs)
       = [''POSTPROCESSING'', ''ARCHIVED'', ''PREPROCESSING'', ''RUNNING'']
   \<and> map state (db_table (snd (ws_sanity_check example_config example_world_jobs)))
       = [''FAILED'', ''ARCHIVED'', ''FAILED'', ''RUNNING'']
   \<and> length (db_table (snd (ws_sanity_check example_config example_world_jobs))) = 4"
proof -
  let ?R = "ws_sanity_check example_config example_world_jobs"
  have a: "fst ?R = None"
    by (simp add: sweep_defs run_defs)
  then have b: "?R = (None, snd ?R)" by (metis prod.collapse)
  have c: "map state (db_table example_world_jobs)
       = [''POSTPROCESSING'', ''ARCHIVED'', ''PREPROCESSING'', ''RUNNING'']"
    by (simp add: example_world_jobs_def example_row_def)
  have d: "map state (db_table (snd ?R)) = [''FAILED'', ''ARCHIVED'', ''FAILED'', ''RUNNING'']"
    by (simp add: sweep_defs run_defs)
  have e: "length (db_table example_world_jobs) = 4"
    by (simp add: example_world_jobs_def)
  from sanity_check_sweeps_transient [OF b] a c d e show ?thesis by simp
qed


subsection \<open>Failing a job\<close>

lemma set_state_directory_frame:
  "set_state_directory cfg st job w = (r, job', w') \<Longrightarrow>
   outbox w' = outbox w \<and> mailer_up w' = mailer_up w \<and> db_up w' = db_up w
   \<and> db_table w' = db_table w \<and> traceback w' = traceback w
   \<and> state_file_text w' = state_file_text w
   \<and> jstate job' = jstate job
   \<and> failure (dict (metadata job')) = failure (dict (metadata job))
   \<and> name (dict (metadata job')) = name (dict (metadata job))"
  by (auto simp: set_state_directory_def rmtree_def move_def setitem_def Let_def
           split: option.splits if_splits prod.splits)

lemma change_job_state_frame:
  "change_job_state m old new w = (r, m', w') \<Longrightarrow>
   outbox w' = outbox w \<and> mailer_up w' = mailer_up w \<and> db_up w' = db_up w
   \<and> traceback w' = traceback w \<and> state_file_text w' = state_file_text w
   \<and> dict m' = dict m"
  by (auto simp: change_job_state_def mark_synced_def split: if_splits)

lemma internal_set_state_frame:
  assumes "internal_set_state cfg st job w = (r, job', w')"
  shows "outbox w' = outbox w \<and> mailer_up w' = mailer_up w
       \<and> traceback w' = traceback w \<and> state_file_text w' = state_file_text w
       \<and> failure (dict (metadata job')) = failure (dict (metadata job))
       \<and> name (dict (metadata job')) = name (dict (metadata job))"
proof -
  obtain r0 s where tr: "transition (jstate job) st = (r0, s)"
    by (cases "transition (jstate job) st")
  show ?thesis
  proof (cases r0)
    case (Some e)
    with assms tr show ?thesis by (auto simp: internal_set_state_def Let_def)
  next
    case None
    obtain r1 j1 w1 where sd: "set_state_directory cfg st (job\<lparr>jstate := s\<rparr>) w = (r1, j1, w1)"
      using prod_cases3 by blast
    note f1 = set_state_directory_frame [OF sd]
    show ?thesis
    proof (cases r1)
      case (Some e)
      with assms tr None sd f1 show ?thesis by (auto simp: internal_set_state_def Let_def)
    next
      case None
      obtain r2 m2 w2 where cj: "change_job_state (metadata j1) (jstate job) st w1 = (r2, m2, w2)"
        using prod_cases3 by blast
      note f2 = change_job_state_frame [OF cj]
      from assms tr \<open>r0 = None\<close> sd None cj have "job' = j1\<lparr>metadata := m2\<rparr>" "w' = w2"
        by (simp_all add: internal_set_state_def Let_def)
      with f1 f2 show ?thesis by simp
    qed
  qed
qed

lemma internal_set_state_FAILED_jstate:
  assumes "internal_set_state cfg ''FAILED'' job w = (r, job', w')"
  shows "jstate job' = ''FAILED''"
proof -
  have tr: "transition (jstate job) ''FAILED'' = (None, ''FAILED'')"
    by (simp add: transition_def)
  obtain r1 j1 w1 where
    sd: "set_state_directory cfg ''FAILED'' (job\<lparr>jstate := ''FAILED''\<rparr>) w = (r1, j1, w1)"
    using prod_cases3 by blast
  from set_state_directory_frame [OF sd] have j1: "jstate j1 = ''FAILED''" by simp
  show ?thesis
  proof (cases r1)
    case (Some e)
    with assms tr sd j1 show ?thesis by (auto simp: internal_set_state_def Let_def)
  next
    case None
    obtain r2 m2 w2 where
      cj: "change_job_state (metadata j1) (jstate job) ''FAILED'' w1 = (r2, m2, w2)"
      using prod_cases3 by blast
    from assms tr sd None cj have "job' = j1\<lparr>metadata := m2\<rparr>"
      by (simp add: internal_set_state_def Let_def)
    with j1 show ?thesis by simp
  qed
qed

lemma fail_Some:
  assumes "fail cfg reason job w = (Some e, job', w')"
  shows "original_error e = Some (failure_text w reason)
       \<and> jstate job' = ''FAILED''
       \<and> failure (dict (metadata job')) = Some (failure_text w reason)"
proof -
  let ?j1 = "job\<lparr>metadata := setitem failure failure_update
                                    (Some (failure_text w reason)) (metadata job)\<rparr>"
  obtain r j2 w1 where iss: "internal_set_state cfg ''FAILED'' ?j1 w = (r, j2, w1)"
    using prod_cases3 by blast
  have fl: "failure (dict (metadata ?j1)) = Some (failure_text w reason)"
    by (simp add: setitem_def)
  from internal_set_state_frame [OF iss] fl
  have f2: "failure (dict (metadata j2)) = Some (failure_text w reason)" by simp
  from internal_set_state_FAILED_jstate [OF iss] have s2: "jstate j2 = ''FAILED''" .
  show ?thesis
  proof (cases r)
    case (Some d)
    with assms iss f2 s2 show ?thesis by (auto simp: fail_def Let_def)
  next
    case None
    with assms iss f2 s2 show ?thesis
      by (auto simp: fail_def Let_def split: prod.splits option.splits)
  qed
qed


lemma handle_fatal_error_state_file:
  "state_file_text (snd (handle_fatal_error cfg e w))
     = Some (''FAILED: '' @ fatal_error_text w e @ [CHR 0x0A])"
  by (simp add: handle_fatal_error_def Let_def send_admin_email_def send_email_def)

lemma fatal_error_text_original:
  "original_error e = Some orig \<Longrightarrow> \<exists>p. fatal_error_text w e = p @ orig"
  by (simp add: fatal_error_text_def)

text \<open>
  Claim C5, as amended. \<^verbatim>\<open>Job._fail\<close>, called with the exception that escaped a
  handler, stores in \<^verbatim>\<open>metadata['failure']\<close> the failure text, which is the line
  \<^verbatim>\<open>Python exception:\<close> followed by the formatted traceback; the transition to
  FAILED is legal from every state. When \<^verbatim>\<open>_fail\<close> returns, the job is in
  state FAILED in memory and in the table, the row holds the failure text,
  and one message to the administrator, quoting the text, has been handed to
  the mailer. When \<^verbatim>\<open>_fail\<close> itself raises, the exception that escapes carries
  the failure text in \<^verbatim>\<open>original_error\<close>, and \<^verbatim>\<open>WebService._handle_fatal_error\<close>
  applied to it writes a state file that starts with \<^verbatim>\<open>FAILED: \<close> and whose
  error text ends with that original failure text.
\<close>

theorem fail_marks_failed:
  "(fail cfg reason job w = (None, job', w') \<longrightarrow>
       failure (dict (metadata job')) = Some (failure_text w reason)
     \<and> jstate job' = ''FAILED''
     \<and> (\<forall>r \<in> set (db_table w'). name (cols r) = name (dict (metadata job)) \<longrightarrow>
            state r = ''FAILED'' \<and> failure (cols r) = Some (failure_text w reason))
     \<and> outbox w' = outbox w @
          [\<lparr>rcpt = [admin_email cfg], sender = admin_email cfg,
            subject = ''Sali lab '' @ service_name cfg @ '' service: Job '' @
                      name (dict (metadata job)) @ '' FAILED'',
            body = ''Job '' @ name (dict (metadata job)) @
                   '' failed with the following error:'' @ [CHR 0x0A] @
                   failure_text w reason\<rparr>])
   \<and> (fail cfg reason job w = (Some e, job', w') \<longrightarrow>
       original_error e = Some (failure_text w reason)
     \<and> jstate job' = ''FAILED''
     \<and> state_file_text (snd (handle_fatal_error cfg e w'))
         = Some (''FAILED: '' @ fatal_error_text w' e @ [CHR 0x0A])
     \<and> (\<exists>p. fatal_error_text w' e = p @ failure_text w reason))
   \<and> (\<forall>tb. traceback w reason = Some tb \<longrightarrow>
         failure_text w reason = ''Python exception:'' @ [CHR 0x0A] @ tb)
   \<and> transition (jstate job) ''FAILED'' = (None, ''FAILED'')"
proof (intro conjI impI allI)
  assume a: "fail cfg reason job w = (None, job', w')"
  let ?j1 = "job\<lparr>metadata := setitem failure failure_update
                                    (Some (failure_text w reason)) (metadata job)\<rparr>"
  from fail_None [OF a] obtain w1 where
        i: "internal_set_state cfg ''FAILED'' ?j1 w = (None, job', w1)"
    and w': "w' = w1\<lparr>outbox := outbox w1 @
                  [\<lparr>rcpt = [admin_email cfg], sender = admin_email cfg,
                    subject = ''Sali lab '' @ service_name cfg @ '' service: Job '' @
                              name (dict (metadata job')) @ '' FAILED'',
                    body = ''Job '' @ name (dict (metadata job')) @
                           '' failed with the following error:'' @ [CHR 0x0A] @
                           failure_text w reason\<rparr>]\<rparr>"
    by blast
  have fl: "failure (dict (metadata ?j1)) = Some (failure_text w reason)"
       and nm: "name (dict (metadata ?j1)) = name (dict (metadata job))"
    by (simp_all add: setitem_def)
  from internal_set_state_frame [OF i] fl nm have
        ob: "outbox w1 = outbox w"
    and f': "failure (dict (metadata job')) = Some (failure_text w reason)"
    and n': "name (dict (metadata job')) = name (dict (metadata job))"
    by simp_all
  show "failure (dict (metadata job')) = Some (failure_text w reason)" by (rule f')
  from fail_db_table [OF a] show "jstate job' = ''FAILED''" by blast
  from fail_db_table [OF a] f'
  show "\<forall>r \<in> set (db_table w'). name (cols r) = name (dict (metadata job)) \<longrightarrow>
            state r = ''FAILED'' \<and> failure (cols r) = Some (failure_text w reason)"
    by auto
  from w' ob n'
  show "outbox w' = outbox w @
          [\<lparr>rcpt = [admin_email cfg], sender = admin_email cfg,
            subject = ''Sali lab '' @ service_name cfg @ '' service: Job '' @
                      name (dict (metadata job)) @ '' FAILED'',
            body = ''Job '' @ name (dict (metadata job)) @
                   '' failed with the following error:'' @ [CHR 0x0A] @
                   failure_text w reason\<rparr>]"
    by simp
next
  assume a: "fail cfg reason job w = (Some e, job', w')"
  from fail_Some [OF a] show oe: "original_error e = Some (failure_text w reason)"
    and "jstate job' = ''FAILED''"
    by blast+
  show "state_file_text (snd (handle_fatal_error cfg e w'))
         = Some (''FAILED: '' @ fatal_error_text w' e @ [CHR 0x0A])"
    by (rule handle_fatal_error_state_file)
  from fatal_error_text_original [OF oe]
  show "\<exists>p. fatal_error_text w' e = p @ failure_text w reason" .
next
  fix tb assume "traceback w reason = Some tb"
  then show "failure_text w reason = ''Python exception:'' @ [CHR 0x0A] @ tb"
    by (simp add: failure_text_def)
next
  show "transition (jstate job) ''FAILED'' = (None, ''FAILED'')"
    by (simp add: transition_def)
qed

lemmas fail_run_defs =
  fail_def failure_text_def send_admin_email_def send_email_def raise_exn_def

theorem fail_marks_failed_witness:
  "fst (fail example_config (raise_exn ValueError ''boom'')
          (example_job ''j4'' (Some ''/run/j4'') ''RUNNING'') example_world_jobs) = None
   \<and> failure (dict (metadata (fst (snd
         (fail example_config (raise_exn ValueError ''boom'')
            (example_job ''j4'' (Some ''/run/j4'') ''RUNNING'') example_world_jobs)))))
       = Some (''Python exception:'' @ [CHR 0x0A] @ ''Traceback: boom'')
   \<and> jstate (fst (snd
         (fail example_config (raise_exn ValueError ''boom'')
            (example_job ''j4'' (Some ''/run/j4'') ''RUNNING'') example_world_jobs)))
       = ''FAILED''
   \<and> map rcpt (outbox (snd (snd
         (fail example_config (raise_exn ValueError ''boom'')
            (example_job ''j4'' (Some ''/run/j4'') ''RUNNING'') example_world_jobs))))
       = [[''admin@example.org'']]
   \<and> (\<exists>e. fst (fail example_config (raise_exn ValueError ''boom'')
                 (example_job ''j9'' (Some ''/nowhere/j9'') ''RUNNING'') example_world_jobs)
            = Some e
          \<and> cls e = IOError
          \<and> original_error e = Some (''Python exception:'' @ [CHR 0x0A] @ ''Traceback: boom''))"
proof -
  let ?x = "raise_exn ValueError ''boom''"
  let ?R = "fail example_config ?x (example_job ''j4'' (Some ''/run/j4'') ''RUNNING'')
              example_world_jobs"
  let ?Q = "fail example_config ?x (example_job ''j9'' (Some ''/nowhere/j9'') ''RUNNING'')
              example_world_jobs"
  have a: "fst ?R = None" by (simp add: fail_run_defs run_defs)
  then have b: "?R = (None, fst (snd ?R), snd (snd ?R))" by (metis prod.collapse)
  have tb: "traceback example_world_jobs ?x = Some ''Traceback: boom''"
    by (simp add: example_world_jobs_def example_world_def raise_exn_def)
  have ob: "outbox example_world_jobs = []"
    by (simp add: example_world_jobs_def example_world_def)
  have ad: "admin_email example_config = ''admin@example.org''"
    by (simp add: example_config_def)
  obtain e where q: "fst ?Q = Some e" and ce: "cls e = IOError"
    by (simp add: fail_run_defs run_defs)
  from q have bq: "?Q = (Some e, fst (snd ?Q), snd (snd ?Q))" by (metis prod.collapse)
  note T = fail_marks_failed
             [of example_config ?x "example_job ''j4'' (Some ''/run/j4'') ''RUNNING''"
                 example_world_jobs "fst (snd ?R)" "snd (snd ?R)"]
  note TQ = fail_marks_failed
             [of example_config ?x "example_job ''j9'' (Some ''/nowhere/j9'') ''RUNNING''"
                 example_world_jobs "fst (snd ?Q)" "snd (snd ?Q)" e]
  from T b tb ob ad have c:
    "failure (dict (metadata (fst (snd ?R))))
       = Some (''Python exception:'' @ [CHR 0x0A] @ ''Traceback: boom'')
     \<and> jstate (fst (snd ?R)) = ''FAILED''
     \<and> map rcpt (outbox (snd (snd ?R))) = [[''admin@example.org'']]"
    by simp
  from TQ bq tb have d:
    "original_error e = Some (''Python exception:'' @ [CHR 0x0A] @ ''Traceback: boom'')"
    by simp
  from a c q ce d show ?thesis by auto
qed

text \<open>
  The claim as stated fails on the value stored: for the traceback text
  \<^verbatim>\<open>Traceback: boom\<close> the field \<^verbatim>\<open>failure\<close> is not that text, it is the text
  with the line \<^verbatim>\<open>Python exception:\<close> before it.
\<close>

theorem fail_counterexample:
  "traceback example_world_jobs (raise_exn ValueError ''boom'') = Some ''Traceback: boom''
   \<and> failure (dict (metadata (fst (snd
         (fail example_config (raise_exn ValueError ''boom'')
            (example_job ''j4'' (Some ''/run/j4'') ''RUNNING'') example_world_jobs)))))
       \<noteq> Some ''Traceback: boom''"
  by (simp add: fail_run_defs run_defs)


subsection \<open>Completing a job\<close>

lemma set_state_directory_kept:
  "set_state_directory cfg st job w = (r, job', w') \<Longrightarrow>
   same_completion_columns (dict (metadata job)) (dict (metadata job'))
   \<and> clock w' = clock w \<and> ticks w' = ticks w"
  by (auto simp: set_state_directory_def rmtree_def move_def setitem_def Let_def
                 same_completion_columns_def
           split: option.splits if_splits prod.splits)

lemma same_completion_columns_trans:
  "same_completion_columns a b \<Longrightarrow> same_completion_columns b c \<Longrightarrow>
   same_completion_columns a c"
  by (simp add: same_completion_columns_def)

lemma same_completion_columns_refl: "same_completion_columns a a"
  by (simp add: same_completion_columns_def)

lemma internal_set_state_kept:
  assumes "internal_set_state cfg st job w = (r, job', w')"
  shows "same_completion_columns (dict (metadata job)) (dict (metadata job'))"
proof -
  obtain r0 s where tr: "transition (jstate job) st = (r0, s)"
    by (cases "transition (jstate job) st")
  show ?thesis
  proof (cases r0)
    case (Some e)
    with assms tr show ?thesis
      by (auto simp: internal_set_state_def Let_def same_completion_columns_refl)
  next
    case None
    obtain r1 j1 w1 where sd: "set_state_directory cfg st (job\<lparr>jstate := s\<rparr>) w = (r1, j1, w1)"
      using prod_cases3 by blast
    from set_state_directory_kept [OF sd]
    have k1: "same_completion_columns (dict (metadata job)) (dict (metadata j1))" by simp
    show ?thesis
    proof (cases r1)
      case (Some e)
      with assms tr \<open>r0 = None\<close> sd k1 show ?thesis
        by (auto simp: internal_set_state_def Let_def)
    next
      case None
      obtain r2 m2 w2 where cj: "change_job_state (metadata j1) (jstate job) st w1 = (r2, m2, w2)"
        using prod_cases3 by blast
      from assms tr \<open>r0 = None\<close> sd None cj have "job' = j1\<lparr>metadata := m2\<rparr>"
        by (simp add: internal_set_state_def Let_def)
      with change_job_state_frame [OF cj] k1 show ?thesis by simp
    qed
  qed
qed

lemma fail_kept:
  assumes "fail cfg reason job w = (r, job', w')"
  shows "same_completion_columns (dict (metadata job)) (dict (metadata job'))
       \<and> (outbox w' = outbox w
          \<or> (\<exists>m. outbox w' = outbox w @ [m] \<and> rcpt m = [admin_email cfg]))"
proof -
  let ?j1 = "job\<lparr>metadata := setitem failure failure_update
                                    (Some (failure_text w reason)) (metadata job)\<rparr>"
  obtain r1 j2 w1 where iss: "internal_set_state cfg ''FAILED'' ?j1 w = (r1, j2, w1)"
    using prod_cases3 by blast
  have k0: "same_completion_columns (dict (metadata job)) (dict (metadata ?j1))"
    by (simp add: setitem_def same_completion_columns_def)
  from internal_set_state_kept [OF iss] k0
  have k: "same_completion_columns (dict (metadata job)) (dict (metadata j2))"
    by (rule same_completion_columns_trans [rotated])
  from internal_set_state_frame [OF iss] have ob: "outbox w1 = outbox w" by simp
  show ?thesis
  proof (cases r1)
    case (Some d)
    with assms iss k ob show ?thesis by (auto simp: fail_def Let_def)
  next
    case None
    with assms iss k ob show ?thesis
      by (auto simp: fail_def Let_def send_admin_email_def send_email_def
               split: if_splits)
  qed
qed

lemma set_state_kept:
  assumes "set_state cfg st job w = (r, job', w')"
  shows "same_completion_columns (dict (metadata job)) (dict (metadata job'))
       \<and> (outbox w' = outbox w
          \<or> (\<exists>m. outbox w' = outbox w @ [m] \<and> rcpt m = [admin_email cfg]))"
proof -
  obtain r1 j1 w1 where iss: "internal_set_state cfg st job w = (r1, j1, w1)"
    using prod_cases3 by blast
  note k1 = internal_set_state_kept [OF iss]
  from internal_set_state_frame [OF iss] have ob: "outbox w1 = outbox w" by simp
  show ?thesis
  proof (cases r1)
    case None
    with assms iss k1 ob show ?thesis by (auto simp: set_state_def)
  next
    case (Some e)
    with assms iss have f: "fail cfg e j1 w1 = (r, job', w')" by (simp add: set_state_def)
    from fail_kept [OF f] k1 ob show ?thesis
      by (auto intro: same_completion_columns_trans)
  qed
qed

lemma run_in_job_directory_complete:
  "run_in_job_directory complete job w = (r, job', w') \<Longrightarrow>
   job' = job \<and> outbox w' = outbox w"
  by (auto simp: run_in_job_directory_def complete_def Let_def
           split: option.splits if_splits)

lemma sync_metadata_kept:
  "sync_metadata job w = (r, job', w') \<Longrightarrow>
   dict (metadata job') = dict (metadata job) \<and> outbox w' = outbox w"
  by (auto simp: sync_metadata_def update_job_def mark_synced_def split: if_splits)


lemma send_job_completed_email_cases:
  assumes "send_job_completed_email cfg job w = (r, w')"
  shows "((contact_email (dict (metadata job)) = None
           \<or> contact_email (dict (metadata job)) = Some []) \<longrightarrow> w' = w \<and> r = None)
       \<and> (\<forall>addr. contact_email (dict (metadata job)) = Some addr \<and> addr \<noteq> [] \<and> r = None
             \<longrightarrow> outbox w' = outbox w @ [completed_email cfg job addr])"
  using assms
  by (auto simp: send_job_completed_email_def send_user_email_def send_email_def
                 completed_email_def
           split: option.splits if_splits)

text \<open>
  Claim C6. \<^verbatim>\<open>Job._mark_job_completed\<close> sets, in the one call and whatever happens
  later in it, \<^verbatim>\<open>end_time\<close> to the current time read from the clock,
  \<^verbatim>\<open>archive_time\<close> to \<^verbatim>\<open>end_time + config.oldjobs['archive']\<close> or to \<^verbatim>\<open>None\<close> when
  archive is NEVER, and \<^verbatim>\<open>expire_time\<close> likewise from expire. The notification
  to the user is sent only when \<^verbatim>\<open>contact_email\<close> is set: with \<^verbatim>\<open>contact_email\<close>
  null or empty the only message the call can send is \<^verbatim>\<open>_fail\<close>'s message to
  the administrator, and when it is set and the call returns, the last
  message sent is the notification to that address.
\<close>

theorem mark_job_completed_times:
  assumes "mark_job_completed cfg job w = (r, job', w')"
  shows "end_time (dict (metadata job')) = Some (clock w (ticks w))
       \<and> archive_time (dict (metadata job'))
           = map_option (\<lambda>delta. clock w (ticks w) + delta) (archive (oldjobs_of cfg))
       \<and> expire_time (dict (metadata job'))
           = map_option (\<lambda>delta. clock w (ticks w) + delta) (expire (oldjobs_of cfg))
       \<and> ((contact_email (dict (metadata job)) = None
            \<or> contact_email (dict (metadata job)) = Some []) \<longrightarrow>
           (outbox w' = outbox w
            \<or> (\<exists>m. outbox w' = outbox w @ [m] \<and> rcpt m = [admin_email cfg])))
       \<and> (r = None \<longrightarrow>
           (\<forall>addr. contact_email (dict (metadata job)) = Some addr \<and> addr \<noteq> [] \<longrightarrow>
              outbox w' \<noteq> [] \<and> last (outbox w') = completed_email cfg job addr))"
proof -
  define endtime where "endtime = clock w (ticks w)"
  define w1 where "w1 = w\<lparr>ticks := Suc (ticks w)\<rparr>"
  define m3 where "m3 =
     setitem expire_time expire_time_update
       (case expire (oldjobs_of cfg) of None \<Rightarrow> None | Some delta \<Rightarrow> Some (endtime + delta))
       (setitem archive_time archive_time_update
          (case archive (oldjobs_of cfg) of None \<Rightarrow> None | Some delta \<Rightarrow> Some (endtime + delta))
          (setitem end_time end_time_update (Some endtime) (metadata job)))"
  define job0 where "job0 = job\<lparr>metadata := m3\<rparr>"
  have t0: "end_time (dict m3) = Some endtime
          \<and> archive_time (dict m3)
              = map_option (\<lambda>delta. endtime + delta) (archive (oldjobs_of cfg))
          \<and> expire_time (dict m3)
              = map_option (\<lambda>delta. endtime + delta) (expire (oldjobs_of cfg))
          \<and> name (dict m3) = name (dict (metadata job))
          \<and> url (dict m3) = url (dict (metadata job))
          \<and> contact_email (dict m3) = contact_email (dict (metadata job))"
    by (cases "archive (oldjobs_of cfg)"; cases "expire (oldjobs_of cfg)")
       (simp_all add: m3_def setitem_def)
  have ob1: "outbox w1 = outbox w" by (simp add: w1_def)
  obtain r2 job2 w2 where ss: "set_state cfg ''COMPLETED'' job0 w1 = (r2, job2, w2)"
    using prod_cases3 by blast
  have unfold: "mark_job_completed cfg job w =
     (case set_state cfg ''COMPLETED'' job0 w1 of
               (Some e, job2, w2) \<Rightarrow> (Some e, job2, w2)
             | (None, job2, w2) \<Rightarrow>
                (case run_in_job_directory complete job2 w2 of
                   (Some e, job3, w3) \<Rightarrow> (Some e, job3, w3)
                 | (None, job3, w3) \<Rightarrow>
                    (case sync_metadata job3 w3 of
                       (Some e, job4, w4) \<Rightarrow> (Some e, job4, w4)
                     | (None, job4, w4) \<Rightarrow>
                        (case send_job_completed_email cfg job4 w4 of
                           (r, w5) \<Rightarrow> (r, job4, w5)))))"
    unfolding endtime_def w1_def m3_def job0_def
    by (simp add: mark_job_completed_def time_time_def Let_def)
  from set_state_kept [OF ss] have
        k2: "same_completion_columns (dict (metadata job0)) (dict (metadata job2))"
    and o2: "outbox w2 = outbox w1
             \<or> (\<exists>m. outbox w2 = outbox w1 @ [m] \<and> rcpt m = [admin_email cfg])"
    by blast+
  have c2: "end_time (dict (metadata job2)) = Some endtime
          \<and> archive_time (dict (metadata job2))
              = map_option (\<lambda>delta. endtime + delta) (archive (oldjobs_of cfg))
          \<and> expire_time (dict (metadata job2))
              = map_option (\<lambda>delta. endtime + delta) (expire (oldjobs_of cfg))
          \<and> name (dict (metadata job2)) = name (dict (metadata job))
          \<and> url (dict (metadata job2)) = url (dict (metadata job))
          \<and> contact_email (dict (metadata job2)) = contact_email (dict (metadata job))"
    using k2 t0 by (simp add: same_completion_columns_def job0_def)
  let ?goal = "\<lambda>j wf rf.
       end_time (dict (metadata j)) = Some endtime
       \<and> archive_time (dict (metadata j))
           = map_option (\<lambda>delta. endtime + delta) (archive (oldjobs_of cfg))
       \<and> expire_time (dict (metadata j))
           = map_option (\<lambda>delta. endtime + delta) (expire (oldjobs_of cfg))
       \<and> ((contact_email (dict (metadata job)) = None
            \<or> contact_email (dict (metadata job)) = Some []) \<longrightarrow>
           (outbox wf = outbox w
            \<or> (\<exists>m. outbox wf = outbox w @ [m] \<and> rcpt m = [admin_email cfg])))
       \<and> (rf = None \<longrightarrow>
           (\<forall>addr. contact_email (dict (metadata job)) = Some addr \<and> addr \<noteq> [] \<longrightarrow>
              outbox wf \<noteq> [] \<and> last (outbox wf) = completed_email cfg job addr))"
  have "?goal job' w' r"
  proof (cases r2)
    case (Some e)
    with assms unfold ss have "r = Some e" "job' = job2" "w' = w2" by simp_all
    with c2 o2 ob1 show ?thesis by auto
  next
    case None
    obtain r3 job3 w3 where rj: "run_in_job_directory complete job2 w2 = (r3, job3, w3)"
      using prod_cases3 by blast
    from run_in_job_directory_complete [OF rj] have j3: "job3 = job2" "outbox w3 = outbox w2"
      by simp_all
    show ?thesis
    proof (cases r3)
      case (Some e)
      with assms unfold ss None rj have "r = Some e" "job' = job3" "w' = w3" by simp_all
      with c2 o2 ob1 j3 show ?thesis by auto
    next
      case None
      obtain r4 job4 w4 where sm: "sync_metadata job3 w3 = (r4, job4, w4)"
        using prod_cases3 by blast
      from sync_metadata_kept [OF sm] j3 have
        j4: "dict (metadata job4) = dict (metadata job2)" "outbox w4 = outbox w2"
        by simp_all
      show ?thesis
      proof (cases r4)
        case (Some e)
        with assms unfold ss \<open>r2 = None\<close> rj \<open>r3 = None\<close> sm
        have "r = Some e" "job' = job4" "w' = w4" by simp_all
        with c2 o2 ob1 j4 show ?thesis by auto
      next
        case None
        obtain r5 w5 where se: "send_job_completed_email cfg job4 w4 = (r5, w5)"
          by (cases "send_job_completed_email cfg job4 w4")
        with assms unfold ss \<open>r2 = None\<close> rj \<open>r3 = None\<close> sm None
        have fin: "r = r5" "job' = job4" "w' = w5" by simp_all
        have ce: "completed_email cfg job4 addr = completed_email cfg job addr" for addr
          using j4 c2
          by (simp add: completed_email_def completed_subject_def completed_body_def)
        from send_job_completed_email_cases [OF se] j4 c2 have
              e1: "(contact_email (dict (metadata job)) = None
                    \<or> contact_email (dict (metadata job)) = Some []) \<longrightarrow> w5 = w4"
          and e2: "\<forall>addr. contact_email (dict (metadata job)) = Some addr \<and> addr \<noteq> []
                      \<and> r5 = None \<longrightarrow>
                    outbox w5 = outbox w4 @ [completed_email cfg job4 addr]"
          by simp_all
        from e1 e2 fin c2 o2 ob1 j4 ce show ?thesis by auto
      qed
    qed
  qed
  then show ?thesis unfolding endtime_def by blast
qed


lemmas complete_run_defs =
  mark_job_completed_def time_time_def set_state_def run_in_job_directory_def
  complete_def sync_metadata_def update_job_def send_job_completed_email_def
  send_user_email_def send_email_def

theorem mark_job_completed_times_witness:
  "fst (mark_job_completed example_config
          (example_job ''j1'' (Some ''/post/j1'') ''POSTPROCESSING'') example_world_jobs) = None
   \<and> end_time (dict (metadata (fst (snd (mark_job_completed example_config
          (example_job ''j1'' (Some ''/post/j1'') ''POSTPROCESSING'') example_world_jobs)))))
       = Some 100
   \<and> archive_time (dict (metadata (fst (snd (mark_job_completed example_config
          (example_job ''j1'' (Some ''/post/j1'') ''POSTPROCESSING'') example_world_jobs)))))
       = Some 604900
   \<and> expire_time (dict (metadata (fst (snd (mark_job_completed example_config
          (example_job ''j1'' (Some ''/post/j1'') ''POSTPROCESSING'') example_world_jobs)))))
       = None
   \<and> last (outbox (snd (snd (mark_job_completed example_config
          (example_job ''j1'' (Some ''/post/j1'') ''POSTPROCESSING'') example_world_jobs))))
       = completed_email example_config
           (example_job ''j1'' (Some ''/post/j1'') ''POSTPROCESSING'') ''user@example.org''"
proof -
  let ?j = "example_job ''j1'' (Some ''/post/j1'') ''POSTPROCESSING''"
  let ?R = "mark_job_completed example_config ?j example_world_jobs"
  have a: "fst ?R = None"
    by (simp add: complete_run_defs run_defs)
  have b: "?R = (fst ?R, fst (snd ?R), snd (snd ?R))" by simp
  have c: "clock example_world_jobs (ticks example_world_jobs) = 100"
    by (simp add: example_world_jobs_def example_world_def)
  have d: "archive (oldjobs_of example_config) = Some 604800"
          "expire (oldjobs_of example_config) = None"
    by (simp_all add: example_config_def)
  have e: "contact_email (dict (metadata ?j)) = Some ''user@example.org''"
    by (simp add: example_job_def example_columns_def)
  from mark_job_completed_times [OF b] a c d e show ?thesis by simp
qed


end
